theory Spec2Isabelle
  imports Complex_Main
begin

section \<open>The complexity analyzer of agentic-tools-mcp\<close>

text \<open>
  A shallow embedding of the tool \<^verbatim>\<open>analyze_task_complexity\<close>
  (\<^verbatim>\<open>createComplexityAnalysisTool\<close> and its helper functions).

  Conventions of the embedding:
  \<^item> A JavaScript number is an exact rational (\<^typ>\<open>rat\<close>). The values that occur
    (complexities, hours, small sums, thirds of hours) are far from the range where
    binary rounding matters. \<^verbatim>\<open>NaN\<close> and the infinities do not survive JSON storage
    and are left out.
  \<^item> A JavaScript string is a \<^typ>\<open>string\<close>, one \<^typ>\<open>char\<close> per code unit. Every
    literal the analyzer compares against is ASCII. The glyphs of the report text are
    written as the bytes the source file holds for them; no length of such a text is
    ever taken.
  \<^item> An optional field is an \<^typ>\<open>'a option\<close>; \<^verbatim>\<open>undefined\<close> and \<^verbatim>\<open>null\<close> are
    \<^term>\<open>None\<close>.
  \<^item> What the engine supplies (\<^verbatim>\<open>toLowerCase\<close>, the rendering of a number in a
    template literal, \<^verbatim>\<open>toFixed\<close>, the text of \<^verbatim>\<open>new Date().toISOString()\<close> at the
    k-th reading of the clock) is a parameter of type \<open>runtime\<close>; the theorems
    hold for every runtime. \<open>asciiRuntime\<close> is one instance, used to evaluate examples.
\<close>

subsection \<open>What the engine supplies\<close>

record runtime =
  toLowerCase :: "string \<Rightarrow> string"
  numberToString :: "rat \<Rightarrow> string"
  toFixed :: "rat \<Rightarrow> nat \<Rightarrow> string"
  isoDate :: "nat \<Rightarrow> string"

text \<open>
  Decimal digits of a count (an array length, an index, a difference of two counts), as a
  template literal renders it.
\<close>

definition digitChar :: "nat \<Rightarrow> char" where
  "digitChar n = char_of (48 + n)"

fun showNat :: "nat \<Rightarrow> string" where
  "showNat n = (if n < 10 then [digitChar n] else showNat (n div 10) @ [digitChar (n mod 10)])"

declare showNat.simps [simp del]

definition showInt :: "int \<Rightarrow> string" where
  "showInt i = (if i < 0 then CHR ''-'' # showNat (nat (- i)) else showNat (nat i))"

text \<open>\<^verbatim>\<open>String.prototype.includes\<close>: the argument occurs as a contiguous piece.\<close>

fun str_includes :: "string \<Rightarrow> string \<Rightarrow> bool" where
  "str_includes [] k = (k = [])"
| "str_includes (c # cs) k = (take (length k) (c # cs) = k \<or> str_includes cs k)"

text \<open>\<^verbatim>\<open>String.prototype.substring(0, n)\<close>.\<close>

definition substring0 :: "string \<Rightarrow> nat \<Rightarrow> string" where
  "substring0 s n = take n s"

text \<open>\<^verbatim>\<open>Array.prototype.join\<close>.\<close>

fun join :: "string list \<Rightarrow> string \<Rightarrow> string" where
  "join [] sep = []"
| "join [x] sep = x"
| "join (x # y # ys) sep = x @ sep @ join (y # ys) sep"

text \<open>\<^verbatim>\<open>Math.round\<close>: the nearest integer, a tie going up.\<close>

definition Math_round :: "rat \<Rightarrow> rat" where
  "Math_round x = of_int \<lfloor>x + 1 / 2\<rfloor>"

text \<open>\<^verbatim>\<open>x || d\<close> on an optional number: absent and \<open>0\<close> are both falsy.\<close>

definition orDefault :: "rat option \<Rightarrow> rat \<Rightarrow> rat" where
  "orDefault x d = (case x of None \<Rightarrow> d | Some v \<Rightarrow> if v = 0 then d else v)"

text \<open>
  A runtime for examples. It lower-cases the letters \<open>A\<close> to \<open>Z\<close>, renders an integer
  in decimal, and renders \<open>toFixed\<close> with one digit by rounding the exact value. On ASCII
  strings and on integers it is what a JavaScript engine computes.
\<close>

definition lowerChar :: "char \<Rightarrow> char" where
  "lowerChar c = (let n = (of_char c :: nat) in if 65 \<le> n \<and> n \<le> 90 then char_of (n + 32) else c)"

definition showFixed :: "rat \<Rightarrow> nat \<Rightarrow> string" where
  "showFixed x d =
     (let n = nat \<lfloor>\<bar>x\<bar> * 10 ^ d + 1 / 2\<rfloor>;
          whole = showNat (n div 10 ^ d);
          frac = showNat (n mod 10 ^ d);
          body = (if d = 0 then whole
                  else whole @ ''.'' @ replicate (d - length frac) (CHR ''0'') @ frac)
      in if x < 0 \<and> n \<noteq> 0 then CHR ''-'' # body else body)"

definition asciiRuntime :: runtime where
  "asciiRuntime =
     \<lparr> toLowerCase = map lowerChar,
       numberToString = (\<lambda>x. showInt \<lfloor>x\<rfloor>),
       toFixed = showFixed,
       isoDate = (\<lambda>k. ''2025-01-01T00:00:00.000Z'') \<rparr>"

subsection \<open>Data model\<close>

text \<open>
  \<^verbatim>\<open>Task\<close>, with the fields the analyzer reads. \<open>id_task\<close> is the field \<^verbatim>\<open>id\<close>.
\<close>

record task =
  id_task :: string
  name :: string
  details :: string
  projectId :: string
  completed :: bool
  status :: "string option"
  dependsOn :: "string list option"
  priority :: "rat option"
  complexity :: "rat option"
  estimatedHours :: "rat option"

text \<open>
  The value \<^verbatim>\<open>{ score, issues }\<close> returned by the scorer; \<open>score_issues\<close> is its field
  \<^verbatim>\<open>issues\<close>.
\<close>

record score_result =
  score :: rat
  score_issues :: "string list"

subsection \<open>calculateComplexityScore\<close>

definition highComplexityKeywords :: "string list" where
  "highComplexityKeywords =
     [''architecture'', ''system'', ''integration'', ''security'', ''performance'',
      ''scalability'', ''database'', ''api'', ''framework'', ''refactor'', ''migration'']"

definition actionVerbs :: "string list" where
  "actionVerbs =
     [''implement'', ''create'', ''build'', ''develop'', ''design'', ''setup'',
      ''configure'', ''test'', ''deploy'', ''document'', ''research'']"

text \<open>
  \<^verbatim>\<open>if (c) { score += n; issues.push(msg); }\<close> on the pair of the two locals
  \<^verbatim>\<open>score\<close> and \<^verbatim>\<open>issues\<close>.
\<close>

definition check :: "bool \<Rightarrow> rat \<Rightarrow> string \<Rightarrow> rat \<times> string list \<Rightarrow> rat \<times> string list" where
  "check c n msg acc = (if c then (fst acc + n, snd acc @ [msg]) else acc)"

definition highComplexityMatches :: "runtime \<Rightarrow> task \<Rightarrow> nat" where
  "highComplexityMatches rt t =
     length (filter (str_includes (toLowerCase rt (details t))) highComplexityKeywords)"

definition actionMatches :: "runtime \<Rightarrow> task \<Rightarrow> nat" where
  "actionMatches rt t =
     length (filter (str_includes (toLowerCase rt (details t))) actionVerbs)"

text \<open>\<^verbatim>\<open>task.estimatedHours && task.estimatedHours > 20\<close>.\<close>

definition highEstimate :: "task \<Rightarrow> bool" where
  "highEstimate t = (case estimatedHours t of None \<Rightarrow> False | Some h \<Rightarrow> h \<noteq> 0 \<and> h > 20)"

text \<open>\<^verbatim>\<open>task.dependsOn && task.dependsOn.length > 3\<close>; an array is truthy even when empty.\<close>

definition manyDependencies :: "task \<Rightarrow> bool" where
  "manyDependencies t = (case dependsOn t of None \<Rightarrow> False | Some ds \<Rightarrow> length ds > 3)"

definition calculateComplexityScore :: "runtime \<Rightarrow> task \<Rightarrow> score_result" where
  "calculateComplexityScore rt t =
     (let acc0 = (orDefault (complexity t) 5, []);
          acc1 = check (length (name t) > 50) 1
                   ''Task name is very long, suggesting multiple concerns'' acc0;
          acc2 = check (highComplexityMatches rt t > 2) 2
                   (''Contains '' @ showNat (highComplexityMatches rt t)
                    @ '' high-complexity keywords'') acc1;
          acc3 = check (actionMatches rt t > 3) 1
                   (''Contains '' @ showNat (actionMatches rt t)
                    @ '' different action verbs, suggesting multiple tasks'') acc2;
          acc4 = check (length (details t) > 500) 1
                   ''Task description is very detailed, suggesting high complexity'' acc3;
          acc5 = check (highEstimate t) 1
                   (''High time estimate ('' @ numberToString rt (the (estimatedHours t))
                    @ '' hours) suggests complexity'') acc4;
          acc6 = check (manyDependencies t) 1
                   (''Many dependencies ('' @ showNat (length (the (dependsOn t)))
                    @ '') suggest complex coordination'') acc5
      in \<lparr> score = min 10 (fst acc6), score_issues = snd acc6 \<rparr>)"

subsection \<open>generateTaskBreakdownSuggestions\<close>

text \<open>
  \<^verbatim>\<open>CreateTaskInput\<close>, with the fields the analyzer sets; each field name carries the
  suffix \<open>_in\<close>.
\<close>

record createTaskInput =
  name_in :: string
  details_in :: string
  projectId_in :: string
  priority_in :: "rat option"
  complexity_in :: rat
  tags_in :: "string list"
  estimatedHours_in :: rat

text \<open>
  An entry of the local table \<^verbatim>\<open>breakdownPatterns\<close>: the fields \<^verbatim>\<open>keywords\<close>
  (\<open>keywords_p\<close>) and \<^verbatim>\<open>suggestion\<close>, the latter with \<^verbatim>\<open>name\<close>, \<^verbatim>\<open>details\<close> and
  \<^verbatim>\<open>tags\<close>.
\<close>

record suggestion_template =
  name_tpl :: string
  details_tpl :: string
  tags_tpl :: "string list"

record breakdown_pattern =
  keywords_p :: "string list"
  suggestion :: suggestion_template

definition breakdownPatterns :: "task \<Rightarrow> breakdown_pattern list" where
  "breakdownPatterns t =
     [ \<lparr> keywords_p = [''research'', ''investigate'', ''analyze''],
         suggestion = \<lparr> name_tpl = ''Research and Analysis for '' @ name t,
           details_tpl = ''Research requirements, analyze existing solutions, and document findings for: ''
                         @ substring0 (details t) 200,
           tags_tpl = [''research'', ''analysis''] \<rparr> \<rparr>,
       \<lparr> keywords_p = [''design'', ''architecture'', ''plan''],
         suggestion = \<lparr> name_tpl = ''Design and Planning for '' @ name t,
           details_tpl = ''Create detailed design and implementation plan for: ''
                         @ substring0 (details t) 200,
           tags_tpl = [''design'', ''planning''] \<rparr> \<rparr>,
       \<lparr> keywords_p = [''implement'', ''develop'', ''build'', ''code''],
         suggestion = \<lparr> name_tpl = ''Core Implementation for '' @ name t,
           details_tpl = ''Implement the main functionality for: '' @ substring0 (details t) 200,
           tags_tpl = [''implementation'', ''development''] \<rparr> \<rparr>,
       \<lparr> keywords_p = [''test'', ''testing'', ''validation''],
         suggestion = \<lparr> name_tpl = ''Testing and Validation for '' @ name t,
           details_tpl = ''Create and execute tests to validate: '' @ substring0 (details t) 200,
           tags_tpl = [''testing'', ''validation''] \<rparr> \<rparr>,
       \<lparr> keywords_p = [''document'', ''documentation'', ''guide''],
         suggestion = \<lparr> name_tpl = ''Documentation for '' @ name t,
           details_tpl = ''Create comprehensive documentation for: '' @ substring0 (details t) 200,
           tags_tpl = [''documentation''] \<rparr> \<rparr> ]"

text \<open>\<^verbatim>\<open>pattern.keywords.some(keyword => details.includes(keyword))\<close>.\<close>

definition patternMatches :: "string \<Rightarrow> breakdown_pattern \<Rightarrow> bool" where
  "patternMatches d p = list_ex (str_includes d) (keywords_p p)"

text \<open>The object pushed for a pattern that matched.\<close>

definition patternSuggestion :: "task \<Rightarrow> breakdown_pattern \<Rightarrow> createTaskInput" where
  "patternSuggestion t p =
     \<lparr> name_in = name_tpl (suggestion p),
       details_in = details_tpl (suggestion p),
       projectId_in = projectId t,
       priority_in = priority t,
       complexity_in = max 1 (orDefault (complexity t) 5 - 2),
       tags_in = tags_tpl (suggestion p),
       estimatedHours_in = Math_round (orDefault (estimatedHours t) 8 / 3) \<rparr>"

text \<open>The three objects pushed when no pattern matched.\<close>

definition genericBreakdown :: "task \<Rightarrow> createTaskInput list" where
  "genericBreakdown t =
     (let baseHours = orDefault (estimatedHours t) 16 / 3 in
      [ \<lparr> name_in = ''Planning Phase: '' @ name t,
          details_in = ''Plan and design approach for: '' @ substring0 (details t) 200,
          projectId_in = projectId t,
          priority_in = priority t,
          complexity_in = max 1 (orDefault (complexity t) 5 - 3),
          tags_in = [''planning''],
          estimatedHours_in = Math_round baseHours \<rparr>,
        \<lparr> name_in = ''Implementation Phase: '' @ name t,
          details_in = ''Implement core functionality for: '' @ substring0 (details t) 200,
          projectId_in = projectId t,
          priority_in = priority t,
          complexity_in = max 1 (orDefault (complexity t) 5 - 2),
          tags_in = [''implementation''],
          estimatedHours_in = Math_round (baseHours * 2) \<rparr>,
        \<lparr> name_in = ''Testing Phase: '' @ name t,
          details_in = ''Test and validate implementation for: '' @ substring0 (details t) 200,
          projectId_in = projectId t,
          priority_in = priority t,
          complexity_in = max 1 (orDefault (complexity t) 5 - 3),
          tags_in = [''testing''],
          estimatedHours_in = Math_round baseHours \<rparr> ])"

text \<open>The loop over the patterns, pushing onto \<^verbatim>\<open>suggestions\<close> in table order.\<close>

fun pushMatching :: "task \<Rightarrow> string \<Rightarrow> breakdown_pattern list \<Rightarrow> createTaskInput list
                       \<Rightarrow> createTaskInput list" where
  "pushMatching t d [] suggestions = suggestions"
| "pushMatching t d (p # ps) suggestions =
     pushMatching t d ps
       (if patternMatches d p then suggestions @ [patternSuggestion t p] else suggestions)"

definition generateTaskBreakdownSuggestions :: "runtime \<Rightarrow> task \<Rightarrow> createTaskInput list" where
  "generateTaskBreakdownSuggestions rt t =
     (let d = toLowerCase rt (details t);
          suggestions = pushMatching t d (breakdownPatterns t) []
      in if length suggestions = 0 then suggestions @ genericBreakdown t else suggestions)"

subsection \<open>analyzeTaskComplexity\<close>

text \<open>\<^verbatim>\<open>Task & { analysisScore, issues, suggestions }\<close>: a task with three more fields.\<close>

record analysed_task = task +
  analysisScore :: rat
  issues :: "string list"
  suggestions :: "createTaskInput list"

record complexityAnalysisResult =
  complexTasks :: "analysed_task list"
  simpleTasksCount :: int
  totalTasksAnalyzed :: nat
  averageComplexity :: rat

text \<open>The locals of the loop: \<^verbatim>\<open>complexTasks\<close>, \<^verbatim>\<open>totalComplexity\<close>, \<^verbatim>\<open>tasksWithComplexity\<close>.\<close>

record analysis_state =
  complexSoFar :: "analysed_task list"
  totalComplexity :: rat
  tasksWithComplexity :: nat

text \<open>\<^verbatim>\<open>task.completed || task.status === 'done'\<close>.\<close>

definition isFinished :: "task \<Rightarrow> bool" where
  "isFinished t = (completed t \<or> status t = Some ''done'')"

text \<open>\<^verbatim>\<open>{ ...task, analysisScore, issues, suggestions }\<close>.\<close>

definition withAnalysis :: "task \<Rightarrow> rat \<Rightarrow> string list \<Rightarrow> createTaskInput list \<Rightarrow> analysed_task" where
  "withAnalysis t sc iss sugg =
     task.extend t (analysed_task.fields sc iss sugg)"

definition analyzeStep :: "runtime \<Rightarrow> rat \<Rightarrow> bool \<Rightarrow> analysis_state \<Rightarrow> task \<Rightarrow> analysis_state" where
  "analyzeStep rt threshold sb st t =
     (if isFinished t then st
      else
        let analysisResult = calculateComplexityScore rt t;
            st1 = st \<lparr> totalComplexity := totalComplexity st + score analysisResult,
                       tasksWithComplexity := tasksWithComplexity st + 1 \<rparr>
        in if score analysisResult \<ge> threshold
           then st1 \<lparr> complexSoFar := complexSoFar st1 @
                   [withAnalysis t (score analysisResult) (score_issues analysisResult)
                      (if sb then generateTaskBreakdownSuggestions rt t else [])] \<rparr>
           else st1)"

definition analyzeTaskComplexity :: "runtime \<Rightarrow> task list \<Rightarrow> rat \<Rightarrow> bool \<Rightarrow> complexityAnalysisResult" where
  "analyzeTaskComplexity rt tasks threshold sb =
     (let st = foldl (analyzeStep rt threshold sb)
                 \<lparr> complexSoFar = [], totalComplexity = 0, tasksWithComplexity = 0 \<rparr> tasks
      in \<lparr> complexTasks = complexSoFar st,
           simpleTasksCount = int (tasksWithComplexity st) - int (length (complexSoFar st)),
           totalTasksAnalyzed = tasksWithComplexity st,
           averageComplexity = (if tasksWithComplexity st > 0
                                then totalComplexity st / of_nat (tasksWithComplexity st)
                                else 0) \<rparr>)"

subsection \<open>The storage collaborator\<close>

text \<open>
  \<^verbatim>\<open>Storage\<close> is an interface whose implementation is outside the analyzer. It is a
  parameter: four operations over a state of any type \<open>'s\<close>, each returning the value
  the promise resolves to, or what it rejects with, and the state afterwards.
\<close>

datatype thrown = ErrorInstance string | OtherValue

record project =
  id_project :: string

record subtask =
  id_sub :: string
  name_sub :: string
  details_sub :: string
  taskId_sub :: string
  projectId_sub :: string
  completed_sub :: bool
  createdAt_sub :: string
  updatedAt_sub :: string

record 's storage =
  getTask :: "string \<Rightarrow> 's \<Rightarrow> (thrown + task option) \<times> 's"
  getTasks :: "string \<Rightarrow> 's \<Rightarrow> (thrown + task list) \<times> 's"
  getProjects :: "'s \<Rightarrow> (thrown + project list) \<times> 's"
  createSubtask :: "subtask \<Rightarrow> 's \<Rightarrow> (thrown + unit) \<times> 's"

text \<open>
  The world a call of the tool runs in: the state of the storage, the requests made to
  it so far, in order, and how often the clock has been read.
\<close>

datatype storage_call =
  GetTask string | GetTasks string | GetProjects | CreateSubtask subtask

record 's world =
  store :: 's
  calls :: "storage_call list"
  clockReads :: nat

definition callGetTask :: "'s storage \<Rightarrow> string \<Rightarrow> 's world \<Rightarrow> (thrown + task option) \<times> 's world" where
  "callGetTask st tid w =
     (case getTask st tid (store w) of
        (r, s') \<Rightarrow> (r, w \<lparr> store := s', calls := calls w @ [GetTask tid] \<rparr>))"

definition callGetTasks :: "'s storage \<Rightarrow> string \<Rightarrow> 's world \<Rightarrow> (thrown + task list) \<times> 's world" where
  "callGetTasks st pid w =
     (case getTasks st pid (store w) of
        (r, s') \<Rightarrow> (r, w \<lparr> store := s', calls := calls w @ [GetTasks pid] \<rparr>))"

definition callGetProjects :: "'s storage \<Rightarrow> 's world \<Rightarrow> (thrown + project list) \<times> 's world" where
  "callGetProjects st w =
     (case getProjects st (store w) of
        (r, s') \<Rightarrow> (r, w \<lparr> store := s', calls := calls w @ [GetProjects] \<rparr>))"

definition callCreateSubtask :: "'s storage \<Rightarrow> subtask \<Rightarrow> 's world \<Rightarrow> (thrown + unit) \<times> 's world" where
  "callCreateSubtask st sub w =
     (case createSubtask st sub (store w) of
        (r, s') \<Rightarrow> (r, w \<lparr> store := s', calls := calls w @ [CreateSubtask sub] \<rparr>))"

subsection \<open>autoCreateSubtasksFromSuggestions\<close>

text \<open>
  The record passed to \<^verbatim>\<open>createSubtask\<close>. The two timestamps are two readings of the
  clock, \<^verbatim>\<open>createdAt\<close> first.
\<close>

definition subtaskFor :: "runtime \<Rightarrow> nat \<Rightarrow> analysed_task \<Rightarrow> createTaskInput \<Rightarrow> subtask" where
  "subtaskFor rt k t s =
     \<lparr> id_sub = [],
       name_sub = name_in s,
       details_sub = details_in s,
       taskId_sub = id_task t,
       projectId_sub = projectId t,
       completed_sub = False,
       createdAt_sub = isoDate rt k,
       updatedAt_sub = isoDate rt (k + 1) \<rparr>"

text \<open>The inner loop, over the suggestions of one task; a rejected request ends it.\<close>

fun createForTask :: "'s storage \<Rightarrow> runtime \<Rightarrow> analysed_task \<Rightarrow> createTaskInput list
                        \<Rightarrow> 's world \<Rightarrow> (thrown + unit) \<times> 's world" where
  "createForTask st rt t [] w = (Inr (), w)"
| "createForTask st rt t (s # ss) w =
     (case callCreateSubtask st (subtaskFor rt (clockReads w) t s)
             (w \<lparr> clockReads := clockReads w + 2 \<rparr>) of
        (Inl e, w') \<Rightarrow> (Inl e, w')
      | (Inr u, w') \<Rightarrow> createForTask st rt t ss w')"

text \<open>The outer loop, over the complex tasks.\<close>

fun autoCreateSubtasksFromSuggestions :: "'s storage \<Rightarrow> runtime \<Rightarrow> analysed_task list
                        \<Rightarrow> 's world \<Rightarrow> (thrown + unit) \<times> 's world" where
  "autoCreateSubtasksFromSuggestions st rt [] w = (Inr (), w)"
| "autoCreateSubtasksFromSuggestions st rt (t # ts) w =
     (case createForTask st rt t (suggestions t) w of
        (Inl e, w') \<Rightarrow> (Inl e, w')
      | (Inr u, w') \<Rightarrow> autoCreateSubtasksFromSuggestions st rt ts w')"

subsection \<open>generateComplexityAnalysisReport\<close>

text \<open>The characters of the report text outside ASCII, as the source file stores them.\<close>

definition newline :: string where
  "newline = [CHR 0x0A]"

definition glyphMagnifier :: string where
  "glyphMagnifier = [CHR 0xF0, CHR 0x9F, CHR 0x94, CHR 0x8D]"

definition glyphChart :: string where
  "glyphChart = [CHR 0xF0, CHR 0x9F, CHR 0x93, CHR 0x8A]"

definition glyphBullet :: string where
  "glyphBullet = [CHR 0xE2, CHR 0x80, CHR 0xA2]"

definition glyphAtLeast :: string where
  "glyphAtLeast = [CHR 0xE2, CHR 0x89, CHR 0xA5]"

definition glyphCheck :: string where
  "glyphCheck = [CHR 0xE2, CHR 0x9C, CHR 0x85]"

definition glyphWarning :: string where
  "glyphWarning = [CHR 0xE2, CHR 0x9A, CHR 0xA0, CHR 0xEF, CHR 0xB8, CHR 0x8F]"

definition glyphMemo :: string where
  "glyphMemo = [CHR 0xF0, CHR 0x9F, CHR 0x93, CHR 0x9D]"

definition glyphBulb :: string where
  "glyphBulb = [CHR 0xF0, CHR 0x9F, CHR 0x92, CHR 0xA1]"

definition glyphPoint :: string where
  "glyphPoint = [CHR 0xF0, CHR 0x9F, CHR 0x91, CHR 0x89]"

definition allClear :: string where
  \<open>allClear =
     glyphCheck
     @ '' **Great news!** All tasks are within the complexity threshold. Your ''
     @ ''tasks are well-scoped and manageable.''\<close>

definition attentionHeader :: string where
  \<open>attentionHeader =
     glyphWarning @ '' **Complex Tasks Requiring Attention:**'' @ newline @ newline\<close>

definition autoCreatedLine :: string where
  \<open>autoCreatedLine =
     glyphCheck
     @ '' **Auto-created subtasks** for all complex tasks. Check your subtasks ''
     @ ''to see the breakdown.'' @ newline @ newline\<close>

definition guidanceHead :: string where
  \<open>guidanceHead =
     newline @ glyphPoint @ '' **Your Actions: Address Complex Tasks & Proceed**''
     @ newline @ newline\<close>

definition guidanceBreakDown :: string where
  \<open>guidanceBreakDown =
     ''1.  **Break Down Complex Tasks:** For each complex task listed above, ''
     @ ''review the "Suggested Breakdown." You can create these as subtasks ''
     @ ''using the `create_subtask` tool or simplify the main task using ''
     @ ''`update_task`.'' @ newline
     @ ''    *   Example for `create_subtask`: `create_subtask({ taskId: ''
     @ ''"task_id_from_above", name: "suggested_subtask_name", details: "..." ''
     @ ''})`'' @ newline @ ''    *   Example for `update_task`: `update_task({ id: ''
     @ ''"task_id_from_above", details: "simplified_details", complexity: ''
     @ ''new_lower_complexity })`'' @ newline @ newline\<close>

definition guidanceReview :: string where
  \<open>guidanceReview =
     ''1.  **Review Auto-Created Subtasks:** Subtasks have been ''
     @ ''automatically created based on the suggestions. Review them using ''
     @ ''`list_subtasks` and refine them if necessary using `update_subtask`.''
     @ newline @ ''    *   Example: `list_subtasks({ taskId: "task_id_from_above" })`''
     @ newline @ newline\<close>

definition guidanceReanalyze :: string where
  \<open>guidanceReanalyze =
     ''2.  **Re-analyze (Optional):** After addressing the complexities, you ''
     @ ''can re-run this analysis for a specific task to confirm its new ''
     @ ''complexity score.'' @ newline
     @ ''    *   Example: `analyze_task_complexity({ taskId: ''
     @ ''"task_id_from_above" })`'' @ newline @ newline\<close>

definition guidanceNextTask :: string where
  \<open>guidanceNextTask =
     ''3.  **Determine Next Task:** Once tasks are appropriately scoped, use ''
     @ ''the `get_next_task_recommendation` tool to decide what to work on ''
     @ ''next.'' @ newline
     @ ''    *   Example: `get_next_task_recommendation({ projectId: ''
     @ ''"project_id_if_known_or_relevant" })`'' @ newline @ newline\<close>

definition guidanceTip :: string where
  \<open>guidanceTip =
     glyphBulb
     @ '' **Pro Tip:** Well-scoped tasks lead to better progress tracking and ''
     @ ''less overwhelming work sessions!''\<close>

definition nextStepPointer :: string where
  \<open>nextStepPointer =
     newline @ newline @ glyphPoint
     @ '' **Your Next Step:** You can proceed to determine your next task ''
     @ ''using `get_next_task_recommendation`.'' @ newline
     @ ''    *   Example: `get_next_task_recommendation({ projectId: ''
     @ ''"project_id_if_known_or_relevant" })`''\<close>

text \<open>The template literal the report starts with.\<close>

definition reportSummary :: "runtime \<Rightarrow> complexityAnalysisResult \<Rightarrow> rat \<Rightarrow> string" where
  "reportSummary rt results threshold =
     glyphMagnifier @ '' **Task Complexity Analysis Report**'' @ newline @ newline
     @ glyphChart @ '' **Summary:**'' @ newline
     @ glyphBullet @ '' Total tasks analyzed: '' @ showNat (totalTasksAnalyzed results) @ newline
     @ glyphBullet @ '' Complex tasks ('' @ glyphAtLeast @ numberToString rt threshold @ ''): ''
       @ showNat (length (complexTasks results)) @ newline
     @ glyphBullet @ '' Simple tasks (<'' @ numberToString rt threshold @ ''): ''
       @ showInt (simpleTasksCount results) @ newline
     @ glyphBullet @ '' Average complexity: '' @ toFixed rt (averageComplexity results) 1
       @ ''/10'' @ newline @ newline"

text \<open>The template literal appended for the complex task at position \<open>index\<close>.\<close>

definition suggestionLine :: "runtime \<Rightarrow> createTaskInput \<Rightarrow> string" where
  "suggestionLine rt s =
     ''   '' @ glyphBullet @ '' '' @ name_in s @ '' (Est: ''
     @ numberToString rt (estimatedHours_in s) @ ''h)''"

definition taskEntry :: "runtime \<Rightarrow> nat \<Rightarrow> analysed_task \<Rightarrow> string" where
  "taskEntry rt index t =
     showNat (index + 1) @ ''. **'' @ name t @ ''** (Complexity: ''
       @ numberToString rt (analysisScore t) @ ''/10)'' @ newline
     @ ''   '' @ glyphMemo @ '' '' @ substring0 (details t) 100
       @ (if length (details t) > 100 then ''...'' else '''') @ newline
     @ ''   '' @ glyphWarning @ '' Issues: '' @ join (issues t) '', '' @ newline
     @ newline
     @ ''   '' @ glyphBulb @ '' **Suggested Breakdown:**'' @ newline
     @ join (map (suggestionLine rt) (suggestions t)) newline @ newline
     @ newline"

definition newGuidance :: "bool \<Rightarrow> string" where
  "newGuidance autoCreated =
     guidanceHead
     @ (if \<not> autoCreated then guidanceBreakDown else guidanceReview)
     @ guidanceReanalyze
     @ guidanceNextTask
     @ guidanceTip"

text \<open>
  The function, statement by statement: the summary; the return when there is no complex
  task; the listing; the line about auto-creation; and the last \<^verbatim>\<open>if\<close> with its
  \<^verbatim>\<open>else\<close> branch.
\<close>

definition generateComplexityAnalysisReport ::
    "runtime \<Rightarrow> complexityAnalysisResult \<Rightarrow> rat \<Rightarrow> bool \<Rightarrow> string" where
  "generateComplexityAnalysisReport rt results threshold autoCreated =
     (let report0 = reportSummary rt results threshold in
      if length (complexTasks results) = 0 then report0 @ allClear
      else
        let report1 = report0 @ attentionHeader;
            report2 = foldl (\<lambda>report (index, t). report @ taskEntry rt index t) report1
                        (enumerate 0 (complexTasks results));
            report3 = (if autoCreated then report2 @ autoCreatedLine else report2)
        in if length (complexTasks results) > 0
           then report3 @ newGuidance autoCreated
           else report3 @ nextStepPointer)"

subsection \<open>The handler of the tool\<close>

text \<open>
  The arguments after the input schema has filled in its defaults (threshold \<open>7\<close>,
  \<^verbatim>\<open>suggestBreakdown\<close> true, \<^verbatim>\<open>autoCreateSubtasks\<close> false). \<open>projectId_arg\<close> is the
  argument \<^verbatim>\<open>projectId\<close>.
\<close>

record args =
  workingDirectory :: string
  taskId :: "string option"
  projectId_arg :: "string option"
  complexityThreshold :: rat
  suggestBreakdown :: bool
  autoCreateSubtasks :: bool

text \<open>
  What the handler returns: the text of the single content block, and \<^verbatim>\<open>isError\<close>,
  which a successful response does not have.
\<close>

record response =
  content_text :: string
  isError :: "bool option"

text \<open>\<^verbatim>\<open>if (taskId)\<close>: an absent and an empty string are both falsy.\<close>

definition truthy :: "string option \<Rightarrow> bool" where
  "truthy x = (case x of None \<Rightarrow> False | Some v \<Rightarrow> v \<noteq> [])"

definition notFoundResponse :: "string \<Rightarrow> response" where
  \<open>notFoundResponse tid =
     \<lparr> content_text = ''Error: Task with ID "'' @ tid @ ''" not found.'',
       isError = Some True \<rparr>\<close>

definition noTasksResponse :: response where
  "noTasksResponse = \<lparr> content_text = ''No tasks found for analysis.'', isError = None \<rparr>"

text \<open>The loop over the projects, pushing each project's tasks.\<close>

fun collectProjectTasks :: "'s storage \<Rightarrow> project list \<Rightarrow> task list \<Rightarrow> 's world
                              \<Rightarrow> (thrown + task list) \<times> 's world" where
  "collectProjectTasks st [] tasksToAnalyze w = (Inr tasksToAnalyze, w)"
| "collectProjectTasks st (p # ps) tasksToAnalyze w =
     (case callGetTasks st (id_project p) w of
        (Inl e, w') \<Rightarrow> (Inl e, w')
      | (Inr projectTasks, w') \<Rightarrow> collectProjectTasks st ps (tasksToAnalyze @ projectTasks) w')"

text \<open>
  The selection of the tasks: a rejection (\<open>Inl\<close>), the early return of the not-found
  response (\<open>Inr (Inl _)\<close>), or the tasks (\<open>Inr (Inr _)\<close>).
\<close>

definition selectTasks :: "'s storage \<Rightarrow> args \<Rightarrow> 's world
                              \<Rightarrow> (thrown + (response + task list)) \<times> 's world" where
  "selectTasks st a w =
     (if truthy (taskId a) then
        (case callGetTask st (the (taskId a)) w of
           (Inl e, w') \<Rightarrow> (Inl e, w')
         | (Inr None, w') \<Rightarrow> (Inr (Inl (notFoundResponse (the (taskId a)))), w')
         | (Inr (Some t), w') \<Rightarrow> (Inr (Inr [t]), w'))
      else if truthy (projectId_arg a) then
        (case callGetTasks st (the (projectId_arg a)) w of
           (Inl e, w') \<Rightarrow> (Inl e, w')
         | (Inr ts, w') \<Rightarrow> (Inr (Inr ts), w'))
      else
        (case callGetProjects st w of
           (Inl e, w') \<Rightarrow> (Inl e, w')
         | (Inr projects, w') \<Rightarrow>
             (case collectProjectTasks st projects [] w' of
                (Inl e, w'') \<Rightarrow> (Inl e, w'')
              | (Inr ts, w'') \<Rightarrow> (Inr (Inr ts), w''))))"

text \<open>The body of the \<^verbatim>\<open>try\<close> block: the response it returns, or what it throws.\<close>

definition tryBlock :: "'s storage \<Rightarrow> runtime \<Rightarrow> args \<Rightarrow> 's world \<Rightarrow> (thrown + response) \<times> 's world" where
  "tryBlock st rt a w =
     (case selectTasks st a w of
        (Inl e, w1) \<Rightarrow> (Inl e, w1)
      | (Inr (Inl early), w1) \<Rightarrow> (Inr early, w1)
      | (Inr (Inr tasksToAnalyze), w1) \<Rightarrow>
          if length tasksToAnalyze = 0 then (Inr noTasksResponse, w1)
          else
            let analysisResults =
                  analyzeTaskComplexity rt tasksToAnalyze (complexityThreshold a) (suggestBreakdown a)
            in case (if autoCreateSubtasks a \<and> length (complexTasks analysisResults) > 0
                     then autoCreateSubtasksFromSuggestions st rt (complexTasks analysisResults) w1
                     else (Inr (), w1)) of
                 (Inl e, w2) \<Rightarrow> (Inl e, w2)
               | (Inr u, w2) \<Rightarrow>
                   (Inr \<lparr> content_text =
                            generateComplexityAnalysisReport rt analysisResults
                              (complexityThreshold a) (autoCreateSubtasks a),
                          isError = None \<rparr>, w2))"

text \<open>\<^verbatim>\<open>error instanceof Error ? error.message : 'Unknown error'\<close>.\<close>

definition errorMessage :: "thrown \<Rightarrow> string" where
  "errorMessage e = (case e of ErrorInstance m \<Rightarrow> m | OtherValue \<Rightarrow> ''Unknown error'')"

definition handler :: "'s storage \<Rightarrow> runtime \<Rightarrow> args \<Rightarrow> 's world \<Rightarrow> response \<times> 's world" where
  "handler st rt a w =
     (case tryBlock st rt a w of
        (Inl e, w') \<Rightarrow>
          (\<lparr> content_text = ''Error analyzing task complexity: '' @ errorMessage e,
             isError = Some True \<rparr>, w')
      | (Inr r, w') \<Rightarrow> (r, w'))"

subsection \<open>Reference formulas\<close>

text \<open>
  The scoring rule as the specification words it: the base is the stored complexity if
  there is one, else \<open>5\<close>; the six increments are independent.
\<close>

definition specBase :: "task \<Rightarrow> rat" where
  "specBase t = (case complexity t of None \<Rightarrow> 5 | Some c \<Rightarrow> c)"

definition specIncrements :: "runtime \<Rightarrow> task \<Rightarrow> rat" where
  "specIncrements rt t =
     (if length (name t) > 50 then 1 else 0)
   + (if highComplexityMatches rt t > 2 then 2 else 0)
   + (if actionMatches rt t > 3 then 1 else 0)
   + (if length (details t) > 500 then 1 else 0)
   + (if (case estimatedHours t of None \<Rightarrow> False | Some h \<Rightarrow> h > 20) then 1 else 0)
   + (if (case dependsOn t of None \<Rightarrow> False | Some ds \<Rightarrow> length ds > 3) then 1 else 0)"

text \<open>The trigger keywords of the five templates, and the templates a task's details match.\<close>

definition triggerKeywords :: "task \<Rightarrow> string list" where
  "triggerKeywords t = concat (map keywords_p (breakdownPatterns t))"

definition matchedPatterns :: "runtime \<Rightarrow> task \<Rightarrow> breakdown_pattern list" where
  "matchedPatterns rt t =
     filter (patternMatches (toLowerCase rt (details t))) (breakdownPatterns t)"

text \<open>The score of a task, the tasks that are not finished, and the entry built for a task.\<close>

definition taskScore :: "runtime \<Rightarrow> task \<Rightarrow> rat" where
  "taskScore rt t = score (calculateComplexityScore rt t)"

definition activeTasks :: "task list \<Rightarrow> task list" where
  "activeTasks tasks = filter (\<lambda>t. \<not> (completed t \<or> status t = Some ''done'')) tasks"

definition analysed :: "runtime \<Rightarrow> bool \<Rightarrow> task \<Rightarrow> analysed_task" where
  "analysed rt sb t =
     withAnalysis t (score (calculateComplexityScore rt t))
       (score_issues (calculateComplexityScore rt t))
       (if sb then generateTaskBreakdownSuggestions rt t else [])"

text \<open>
  What a creation request carries apart from its timestamps, and what the request for a
  suggestion of a task has to carry.
\<close>

definition requestCore :: "subtask \<Rightarrow> string \<times> string \<times> string \<times> string \<times> bool" where
  "requestCore sub =
     (name_sub sub, details_sub sub, taskId_sub sub, projectId_sub sub, completed_sub sub)"

definition expectedRequest ::
    "analysed_task \<Rightarrow> createTaskInput \<Rightarrow> string \<times> string \<times> string \<times> string \<times> bool" where
  "expectedRequest t s = (name_in s, details_in s, id_task t, projectId t, False)"

text \<open>A storage whose \<^verbatim>\<open>createSubtask\<close> never rejects.\<close>

definition neverRejects :: "'s storage \<Rightarrow> bool" where
  "neverRejects st = (\<forall>sub s. fst (createSubtask st sub s) = Inr ())"

text \<open>The creation requests among the requests made to the storage.\<close>

fun createdBy :: "storage_call list \<Rightarrow> subtask list" where
  "createdBy [] = []"
| "createdBy (CreateSubtask sub # cs) = sub # createdBy cs"
| "createdBy (c # cs) = createdBy cs"

subsection \<open>Example data\<close>

definition sampleTask :: task where
  "sampleTask =
     \<lparr> id_task = ''t1'', name = ''Parser'', details = ''Write the parser'',
       projectId = ''p1'', completed = False, status = None, dependsOn = None,
       priority = None, complexity = None, estimatedHours = None \<rparr>"

text \<open>A task on which every heuristic of the scorer fires.\<close>

definition everyTriggerText :: string where
  "everyTriggerText = ''Implement, create, build and develop the new system: api, database. ''"

definition everyTrigger :: task where
  "everyTrigger =
     \<lparr> id_task = ''t2'',
       name = ''Replace the storage layer and every client of it in one go'',
       details = everyTriggerText @ replicate 500 (CHR ''x''),
       projectId = ''p1'', completed = False, status = None,
       dependsOn = Some [''a'', ''b'', ''c'', ''d''],
       priority = None, complexity = Some 5, estimatedHours = Some 40 \<rparr>"

text \<open>A task scoring exactly \<open>7\<close>, two finished tasks, and a task scoring \<open>3\<close>.\<close>

definition mixedTasks :: "task list" where
  "mixedTasks =
     [sampleTask \<lparr> id_task := ''seven'', complexity := Some 7 \<rparr>,
      sampleTask \<lparr> id_task := ''completed'', completed := True, complexity := Some 9 \<rparr>,
      sampleTask \<lparr> id_task := ''done'', status := Some ''done'', complexity := Some 9 \<rparr>,
      sampleTask \<lparr> id_task := ''three'', complexity := Some 3 \<rparr>]"

text \<open>An analysis result without complex tasks.\<close>

definition allSimple :: complexityAnalysisResult where
  "allSimple =
     \<lparr> complexTasks = [], simpleTasksCount = 1, totalTasksAnalyzed = 1,
       averageComplexity = 5 \<rparr>"

text \<open>
  Two storages over the list of the subtasks created so far: one that serves fixed tasks
  and projects, and one whose every operation rejects.
\<close>

definition listStorage :: "task list \<Rightarrow> project list \<Rightarrow> (subtask list) storage" where
  "listStorage ts ps =
     \<lparr> getTask = (\<lambda>tid s. (Inr (find (\<lambda>t. id_task t = tid) ts), s)),
       getTasks = (\<lambda>pid s. (Inr (filter (\<lambda>t. projectId t = pid) ts), s)),
       getProjects = (\<lambda>s. (Inr ps, s)),
       createSubtask = (\<lambda>sub s. (Inr (), s @ [sub])) \<rparr>"

definition rejectingStorage :: "thrown \<Rightarrow> (subtask list) storage" where
  "rejectingStorage e =
     \<lparr> getTask = (\<lambda>tid s. (Inl e, s)),
       getTasks = (\<lambda>pid s. (Inl e, s)),
       getProjects = (\<lambda>s. (Inl e, s)),
       createSubtask = (\<lambda>sub s. (Inl e, s)) \<rparr>"

definition emptyWorld :: "(subtask list) world" where
  "emptyWorld = \<lparr> store = [], calls = [], clockReads = 0 \<rparr>"

definition allTasksArgs :: args where
  "allTasksArgs =
     \<lparr> workingDirectory = ''/work'', taskId = None, projectId_arg = None,
       complexityThreshold = 7, suggestBreakdown = True, autoCreateSubtasks = True \<rparr>"

definition twoComplexTasks :: "task list" where
  "twoComplexTasks =
     [sampleTask \<lparr> id_task := ''a'', complexity := Some 8 \<rparr>,
      sampleTask \<lparr> id_task := ''b'', projectId := ''p2'', complexity := Some 9 \<rparr>]"

definition twoProjects :: "project list" where
  "twoProjects = [\<lparr> id_project = ''p1'' \<rparr>, \<lparr> id_project = ''p2'' \<rparr>]"

text \<open>
  Two storages that fail part of the way: one accepts the first creation request and
  rejects every later one, the other rejects \<^verbatim>\<open>getTasks\<close> for one project.
\<close>

definition laterCreationsRejected ::
    "task list \<Rightarrow> project list \<Rightarrow> thrown \<Rightarrow> (subtask list) storage" where
  "laterCreationsRejected ts ps e =
     \<lparr> getTask = (\<lambda>tid s. (Inr (find (\<lambda>t. id_task t = tid) ts), s)),
       getTasks = (\<lambda>pid s. (Inr (filter (\<lambda>t. projectId t = pid) ts), s)),
       getProjects = (\<lambda>s. (Inr ps, s)),
       createSubtask = (\<lambda>sub s. if s = [] then (Inr (), s @ [sub]) else (Inl e, s)) \<rparr>"

definition projectRejected ::
    "task list \<Rightarrow> project list \<Rightarrow> string \<Rightarrow> thrown \<Rightarrow> (subtask list) storage" where
  "projectRejected ts ps bad e =
     \<lparr> getTask = (\<lambda>tid s. (Inr (find (\<lambda>t. id_task t = tid) ts), s)),
       getTasks = (\<lambda>pid s. if pid = bad then (Inl e, s)
                           else (Inr (filter (\<lambda>t. projectId t = pid) ts), s)),
       getProjects = (\<lambda>s. (Inr ps, s)),
       createSubtask = (\<lambda>sub s. (Inr (), s @ [sub])) \<rparr>"

text \<open>
  The run on the two complex tasks: the world after the selection, the entries of the
  analysis, the first subtask requested, and the world after that one creation.
\<close>

definition selectedWorld :: "(subtask list) world" where
  "selectedWorld = emptyWorld \<lparr> calls := [GetProjects, GetTasks ''p1'', GetTasks ''p2''] \<rparr>"

definition analysedTwo :: "analysed_task list" where
  "analysedTwo =
     complexTasks (analyzeTaskComplexity asciiRuntime twoComplexTasks
       (complexityThreshold allTasksArgs) (suggestBreakdown allTasksArgs))"

definition firstCreated :: subtask where
  "firstCreated = subtaskFor asciiRuntime 0 (hd analysedTwo) (hd (suggestions (hd analysedTwo)))"

definition oneCreatedWorld :: "(subtask list) world" where
  "oneCreatedWorld =
     \<lparr> store = [firstCreated],
       calls = [GetProjects, GetTasks ''p1'', GetTasks ''p2'', CreateSubtask firstCreated],
       clockReads = 2 \<rparr>"

section \<open>Properties\<close>

subsection \<open>Strings\<close>

lemma str_includes_iff: "str_includes d k \<longleftrightarrow> (\<exists>p s. d = p @ k @ s)"
proof (induction d)
  case Nil
  then show ?case by auto
next
  case (Cons c cs)
  show ?case
  proof
    assume "str_includes (c # cs) k"
    then consider "take (length k) (c # cs) = k" | "str_includes cs k" by auto
    then show "\<exists>p s. c # cs = p @ k @ s"
    proof cases
      case 1
      then have "c # cs = [] @ k @ drop (length k) (c # cs)"
        by (metis append_Nil append_take_drop_id)
      then show ?thesis by blast
    next
      case 2
      then obtain p s where "cs = p @ k @ s" using Cons.IH by blast
      then have "c # cs = (c # p) @ k @ s" by simp
      then show ?thesis by blast
    qed
  next
    assume "\<exists>p s. c # cs = p @ k @ s"
    then obtain p s where ps: "c # cs = p @ k @ s" by blast
    show "str_includes (c # cs) k"
    proof (cases p)
      case Nil
      then have "take (length k) (c # cs) = k"
        using ps by (metis append_Nil append_eq_conv_conj)
      then show ?thesis by simp
    next
      case (Cons a p')
      then have "cs = p' @ k @ s" using ps by simp
      then have "str_includes cs k" using Cons.IH by blast
      then show ?thesis by simp
    qed
  qed
qed

lemma str_includes_part:
  assumes "str_includes d (a @ k @ b)"
  shows "str_includes d k"
proof -
  from assms obtain p s where "d = p @ (a @ k @ b) @ s"
    by (auto simp: str_includes_iff)
  then have "d = (p @ a) @ k @ (b @ s)" by simp
  then show ?thesis unfolding str_includes_iff by blast
qed

lemma str_includes_append:
  assumes "str_includes a k"
  shows "str_includes (a @ b) k"
proof -
  from assms obtain p s where "a = p @ k @ s" by (auto simp: str_includes_iff)
  then have "a @ b = p @ k @ (s @ b)" by simp
  then show ?thesis unfolding str_includes_iff by blast
qed

lemma matches_append_mono:
  "length (filter (str_includes a) ks) \<le> length (filter (str_includes (a @ b)) ks)"
  by (induction ks) (auto dest: str_includes_append)

lemma showNat_3: "showNat 3 = ''3''"
  by code_simp

lemma rounded_values:
  "Math_round (8 / 3) = 3" "Math_round (16 / 3) = 5" "Math_round (16 / 3 * 2) = 11"
  by (simp_all add: Math_round_def floor_eq_iff)

subsection \<open>The scorer\<close>

lemma fst_check: "fst (check c n msg acc) = fst acc + (if c then n else 0)"
  by (simp add: check_def)

lemma snd_check: "snd (check c n msg acc) = snd acc @ (if c then [msg] else [])"
  by (simp add: check_def)

lemma highEstimate_iff:
  "highEstimate t = (case estimatedHours t of None \<Rightarrow> False | Some h \<Rightarrow> h > 20)"
  by (auto simp add: highEstimate_def split: option.splits)

lemma score_as_sum:
  "score (calculateComplexityScore rt t)
     = min 10 (orDefault (complexity t) 5 + specIncrements rt t)"
  by (simp add: calculateComplexityScore_def Let_def fst_check specIncrements_def add.assoc
      highEstimate_iff manyDependencies_def)

lemma specIncrements_bounds: "0 \<le> specIncrements rt t \<and> specIncrements rt t \<le> 7"
  by (simp add: specIncrements_def split: option.splits)

lemma high_issue_listed:
  assumes "highComplexityMatches rt t > 2"
  shows "(''Contains '' @ showNat (highComplexityMatches rt t) @ '' high-complexity keywords'')
           \<in> set (score_issues (calculateComplexityScore rt t))"
  using assms by (simp add: calculateComplexityScore_def Let_def snd_check)

lemma matches_complexity_update [simp]:
  "highComplexityMatches rt (t \<lparr> complexity := c \<rparr>) = highComplexityMatches rt t"
  "actionMatches rt (t \<lparr> complexity := c \<rparr>) = actionMatches rt t"
  "highEstimate (t \<lparr> complexity := c \<rparr>) = highEstimate t"
  "manyDependencies (t \<lparr> complexity := c \<rparr>) = manyDependencies t"
  by (simp_all add: highComplexityMatches_def actionMatches_def highEstimate_def
      manyDependencies_def)

lemma increments_complexity_update [simp]:
  "specIncrements rt (t \<lparr> complexity := c \<rparr>) = specIncrements rt t"
  by (simp add: specIncrements_def)

lemma issues_complexity_update:
  "score_issues (calculateComplexityScore rt (t \<lparr> complexity := c \<rparr>))
     = score_issues (calculateComplexityScore rt t)"
  by (simp add: calculateComplexityScore_def Let_def snd_check)

lemma zero_complexity_score:
  "calculateComplexityScore rt (t \<lparr> complexity := Some 0 \<rparr>)
     = calculateComplexityScore rt (t \<lparr> complexity := None \<rparr>)"
  by (rule score_result.equality)
     (simp_all add: score_as_sum orDefault_def issues_complexity_update)

lemma everyTrigger_increments: "specIncrements asciiRuntime everyTrigger = 7"
proof -
  have lowered: "toLowerCase asciiRuntime (details everyTrigger)
      = map lowerChar everyTriggerText @ map lowerChar (replicate 500 (CHR ''x''))"
    by (simp add: asciiRuntime_def everyTrigger_def)
  have "length (filter (str_includes (map lowerChar everyTriggerText)) highComplexityKeywords) = 3"
    by code_simp
  then have high: "2 < highComplexityMatches asciiRuntime everyTrigger"
    using matches_append_mono [of "map lowerChar everyTriggerText" highComplexityKeywords
        "map lowerChar (replicate 500 (CHR ''x''))"]
    by (simp add: highComplexityMatches_def lowered)
  have "length (filter (str_includes (map lowerChar everyTriggerText)) actionVerbs) = 4"
    by code_simp
  then have verbs: "3 < actionMatches asciiRuntime everyTrigger"
    using matches_append_mono [of "map lowerChar everyTriggerText" actionVerbs
        "map lowerChar (replicate 500 (CHR ''x''))"]
    by (simp add: actionMatches_def lowered)
  have rest: "50 < length (name everyTrigger)" "500 < length (details everyTrigger)"
    "estimatedHours everyTrigger = Some 40" "dependsOn everyTrigger = Some [''a'', ''b'', ''c'', ''d'']"
    by (simp_all add: everyTrigger_def everyTriggerText_def)
  show ?thesis using high verbs rest by (simp add: specIncrements_def)
qed

text \<open>
  Claim C1, as amended. The score never exceeds \<open>10\<close>. It is at least \<open>1\<close> for every
  task whose stored complexity is absent, \<open>0\<close> or at least \<open>1\<close>, whatever the other
  fields hold and however many heuristics fire; the scorer has a cap and no floor.
\<close>

theorem C1_score_range:
  "score (calculateComplexityScore rt t) \<le> 10
   \<and> ((complexity t = None \<or> complexity t = Some 0 \<or> (\<exists>c. complexity t = Some c \<and> 1 \<le> c))
        \<longrightarrow> 1 \<le> score (calculateComplexityScore rt t))"
proof -
  have inc: "0 \<le> specIncrements rt t" using specIncrements_bounds by blast
  have "1 \<le> orDefault (complexity t) 5"
    if "complexity t = None \<or> complexity t = Some 0 \<or> (\<exists>c. complexity t = Some c \<and> 1 \<le> c)"
    using that by (auto simp add: orDefault_def)
  then show ?thesis using inc by (auto simp add: score_as_sum)
qed

text \<open>The task on which all six heuristics fire: base \<open>5\<close>, increments \<open>7\<close>, score in range.\<close>

theorem C1_score_range_witness:
  "(complexity everyTrigger = None \<or> complexity everyTrigger = Some 0
      \<or> (\<exists>c. complexity everyTrigger = Some c \<and> 1 \<le> c))
   \<and> specIncrements asciiRuntime everyTrigger = 7
   \<and> 1 \<le> score (calculateComplexityScore asciiRuntime everyTrigger)
   \<and> score (calculateComplexityScore asciiRuntime everyTrigger) \<le> 10"
proof -
  have stored: "complexity everyTrigger = None \<or> complexity everyTrigger = Some 0
      \<or> (\<exists>c. complexity everyTrigger = Some c \<and> 1 \<le> c)"
    by (simp add: everyTrigger_def)
  show ?thesis
    using stored everyTrigger_increments C1_score_range [of asciiRuntime everyTrigger]
    by blast
qed

text \<open>
  Claim C1 as stated fails: a task stored with complexity \<open>-3\<close> on which no heuristic
  fires is scored \<open>-3\<close>.
\<close>

theorem C1_counterexample:
  "\<not> (1 \<le> score (calculateComplexityScore asciiRuntime (sampleTask \<lparr> complexity := Some (- 3) \<rparr>)))"
  by code_simp

text \<open>
  Claim C2, as amended. The score is \<open>min(10, base + increments)\<close>, where the base is the
  stored complexity if there is one and it is not \<open>0\<close>, else \<open>5\<close>, and the increments are
  the six independent ones. A task whose details contain exactly three high-complexity
  keywords gets the \<open>+2\<close> and the issue text naming \<open>3\<close>.
\<close>

theorem C2_score_formula:
  "score (calculateComplexityScore rt t)
     = min 10 ((case complexity t of None \<Rightarrow> 5 | Some c \<Rightarrow> if c = 0 then 5 else c)
               + specIncrements rt t)
   \<and> (highComplexityMatches rt t = 3 \<longrightarrow>
        ''Contains 3 high-complexity keywords''
          \<in> set (score_issues (calculateComplexityScore rt t))
        \<and> (if highComplexityMatches rt t > 2 then 2 else 0) = (2::rat))"
proof -
  have a: "score (calculateComplexityScore rt t)
     = min 10 ((case complexity t of None \<Rightarrow> 5 | Some c \<Rightarrow> if c = 0 then 5 else c)
               + specIncrements rt t)"
    by (simp add: score_as_sum orDefault_def)
  have b: "''Contains 3 high-complexity keywords''
             \<in> set (score_issues (calculateComplexityScore rt t))"
    if "highComplexityMatches rt t = 3"
    using high_issue_listed [of rt t] that by (simp add: showNat_3)
  show ?thesis using a b by simp
qed

theorem C2_score_formula_witness:
  "highComplexityMatches asciiRuntime (sampleTask \<lparr> details := ''System API and Database work'' \<rparr>) = 3
   \<and> ''Contains 3 high-complexity keywords''
        \<in> set (score_issues (calculateComplexityScore asciiRuntime
                  (sampleTask \<lparr> details := ''System API and Database work'' \<rparr>)))
   \<and> score (calculateComplexityScore asciiRuntime
                  (sampleTask \<lparr> details := ''System API and Database work'' \<rparr>)) = 7"
proof -
  let ?t = "sampleTask \<lparr> details := ''System API and Database work'' \<rparr>"
  have three: "highComplexityMatches asciiRuntime ?t = 3" by code_simp
  have incs: "specIncrements asciiRuntime ?t = 2" by code_simp
  have base: "complexity ?t = None" by (simp add: sampleTask_def)
  show ?thesis using three incs base C2_score_formula [of asciiRuntime ?t] by simp
qed

text \<open>
  Claim C2 as stated fails: for a task stored with complexity \<open>0\<close> the stated formula
  gives \<open>0\<close>, and the scorer returns \<open>5\<close>.
\<close>

theorem C2_counterexample:
  "score (calculateComplexityScore asciiRuntime (sampleTask \<lparr> complexity := Some 0 \<rparr>))
     \<noteq> min 10 (specBase (sampleTask \<lparr> complexity := Some 0 \<rparr>)
                + specIncrements asciiRuntime (sampleTask \<lparr> complexity := Some 0 \<rparr>))"
  by code_simp

subsection \<open>The breakdown suggestions\<close>

lemma pushMatching_filter:
  "pushMatching t d ps acc = acc @ map (patternSuggestion t) (filter (patternMatches d) ps)"
  by (induction ps arbitrary: acc) simp_all

lemma generate_as_filter:
  "generateTaskBreakdownSuggestions rt t =
     (if matchedPatterns rt t = [] then genericBreakdown t
      else map (patternSuggestion t) (matchedPatterns rt t))"
  by (simp add: generateTaskBreakdownSuggestions_def pushMatching_filter Let_def
      matchedPatterns_def)

lemma genericBreakdown_length: "length (genericBreakdown t) = 3"
  by (simp add: genericBreakdown_def Let_def)

lemma generate_nonempty: "generateTaskBreakdownSuggestions rt t \<noteq> []"
  using genericBreakdown_length [of t] by (auto simp add: generate_as_filter)

lemma no_trigger_no_match:
  assumes "\<not> list_ex (str_includes (toLowerCase rt (details t))) (triggerKeywords t)"
  shows "matchedPatterns rt t = []"
  using assms
  by (simp add: matchedPatterns_def triggerKeywords_def breakdownPatterns_def
      patternMatches_def)

text \<open>
  Claim C5. When the lower-cased details contain no trigger keyword of any of the five
  templates, the suggestions are exactly the three generic phases, Planning,
  Implementation, Testing in this order, with complexities \<open>c - 3\<close>, \<open>c - 2\<close>, \<open>c - 3\<close>
  floored at \<open>1\<close> and hours \<open>round b\<close>, \<open>round (2 b)\<close>, \<open>round b\<close>. Here \<open>c\<close> is the
  parent's stored complexity, or \<open>5\<close> when none is stored or the stored one is \<open>0\<close>, and
  \<open>b\<close> is a third of the parent's stored hours, or of \<open>16\<close> when none are stored or the
  stored ones are \<open>0\<close>: ``or'' is the \<^verbatim>\<open>||\<close> of the source.
\<close>

theorem C5_generic_breakdown:
  assumes "\<not> list_ex (str_includes (toLowerCase rt (details t))) (triggerKeywords t)"
    and "c = (case complexity t of None \<Rightarrow> 5 | Some v \<Rightarrow> if v = 0 then 5 else v)"
    and "b = (case estimatedHours t of None \<Rightarrow> 16 | Some h \<Rightarrow> if h = 0 then 16 else h) / 3"
  shows "map name_in (generateTaskBreakdownSuggestions rt t)
           = [''Planning Phase: '' @ name t, ''Implementation Phase: '' @ name t,
              ''Testing Phase: '' @ name t]
       \<and> map complexity_in (generateTaskBreakdownSuggestions rt t)
           = [max 1 (c - 3), max 1 (c - 2), max 1 (c - 3)]
       \<and> map estimatedHours_in (generateTaskBreakdownSuggestions rt t)
           = [of_int \<lfloor>b + 1 / 2\<rfloor>, of_int \<lfloor>2 * b + 1 / 2\<rfloor>, of_int \<lfloor>b + 1 / 2\<rfloor>]"
proof -
  have "generateTaskBreakdownSuggestions rt t = genericBreakdown t"
    using no_trigger_no_match [OF assms(1)] by (simp add: generate_as_filter)
  then show ?thesis
    unfolding assms(2,3)
    by (simp add: genericBreakdown_def Let_def orDefault_def Math_round_def mult.commute)
qed

text \<open>
  A parent stored with complexity \<open>9\<close> and \<open>30\<close> hours gives complexities \<open>6, 7, 6\<close> and
  hours \<open>10, 20, 10\<close>; a parent with neither gives \<open>2, 3, 2\<close> and \<open>5, 11, 5\<close>.
\<close>

theorem C5_generic_breakdown_witness:
  "\<not> list_ex (str_includes (toLowerCase asciiRuntime
          (details (sampleTask \<lparr> complexity := Some 9, estimatedHours := Some 30 \<rparr>))))
        (triggerKeywords (sampleTask \<lparr> complexity := Some 9, estimatedHours := Some 30 \<rparr>))
   \<and> map name_in (generateTaskBreakdownSuggestions asciiRuntime
        (sampleTask \<lparr> complexity := Some 9, estimatedHours := Some 30 \<rparr>))
        = [''Planning Phase: Parser'', ''Implementation Phase: Parser'', ''Testing Phase: Parser'']
   \<and> map complexity_in (generateTaskBreakdownSuggestions asciiRuntime
        (sampleTask \<lparr> complexity := Some 9, estimatedHours := Some 30 \<rparr>)) = [6, 7, 6]
   \<and> map estimatedHours_in (generateTaskBreakdownSuggestions asciiRuntime
        (sampleTask \<lparr> complexity := Some 9, estimatedHours := Some 30 \<rparr>)) = [10, 20, 10]
   \<and> map complexity_in (generateTaskBreakdownSuggestions asciiRuntime sampleTask) = [2, 3, 2]
   \<and> map estimatedHours_in (generateTaskBreakdownSuggestions asciiRuntime sampleTask) = [5, 11, 5]"
proof -
  let ?t = "sampleTask \<lparr> complexity := Some 9, estimatedHours := Some 30 \<rparr>"
  have none: "\<not> list_ex (str_includes (toLowerCase asciiRuntime (details ?t))) (triggerKeywords ?t)"
    by code_simp
  have none': "\<not> list_ex (str_includes (toLowerCase asciiRuntime (details sampleTask)))
                 (triggerKeywords sampleTask)"
    by code_simp
  have c: "(9::rat) = (case complexity ?t of None \<Rightarrow> 5 | Some v \<Rightarrow> if v = 0 then 5 else v)"
    by simp
  have b: "(10::rat) = (case estimatedHours ?t of None \<Rightarrow> 16 | Some h \<Rightarrow> if h = 0 then 16 else h) / 3"
    by simp
  have c': "(5::rat) = (case complexity sampleTask of None \<Rightarrow> 5 | Some v \<Rightarrow> if v = 0 then 5 else v)"
    by (simp add: sampleTask_def)
  have b': "(16 / 3::rat)
      = (case estimatedHours sampleTask of None \<Rightarrow> 16 | Some h \<Rightarrow> if h = 0 then 16 else h) / 3"
    by (simp add: sampleTask_def)
  note stored = C5_generic_breakdown [OF none c b]
  note absent = C5_generic_breakdown [OF none' c' b']
  have s1: "map name_in (generateTaskBreakdownSuggestions asciiRuntime ?t)
        = [''Planning Phase: Parser'', ''Implementation Phase: Parser'', ''Testing Phase: Parser'']"
    using stored [THEN conjunct1] by (simp add: sampleTask_def)
  have s2: "map complexity_in (generateTaskBreakdownSuggestions asciiRuntime ?t) = [6, 7, 6]"
    using stored [THEN conjunct2, THEN conjunct1] by simp
  have s3: "map estimatedHours_in (generateTaskBreakdownSuggestions asciiRuntime ?t)
        = [10, 20, 10]"
    using stored [THEN conjunct2, THEN conjunct2] by (simp add: floor_eq_iff)
  have a2: "map complexity_in (generateTaskBreakdownSuggestions asciiRuntime sampleTask)
        = [2, 3, 2]"
    using absent [THEN conjunct2, THEN conjunct1] by simp
  have a3': "map estimatedHours_in (generateTaskBreakdownSuggestions asciiRuntime sampleTask)
        = [5, 11, 5]"
    using absent [THEN conjunct2, THEN conjunct2] by (simp add: floor_eq_iff)
  show ?thesis using none s1 s2 s3 a2 a3' by (intro conjI)
qed

text \<open>
  Claim C6. The suggestions for the matching templates are the table of the five
  templates (research, design, implementation, testing, documentation) filtered by
  ``matches'': one suggestion for each matching template and none for the others, in the
  order of the table, nothing merged or moved. When the lower-cased details contain
  \<open>test this implementation\<close>, the implementation suggestion and the testing suggestion
  both appear, the first right before the second.
\<close>

theorem C6_template_order:
  "generateTaskBreakdownSuggestions rt t =
     (if matchedPatterns rt t = [] then genericBreakdown t
      else map (patternSuggestion t)
             (filter (patternMatches (toLowerCase rt (details t))) (breakdownPatterns t)))
   \<and> map (hd \<circ> keywords_p) (breakdownPatterns t)
        = [''research'', ''design'', ''implement'', ''test'', ''document'']
   \<and> (str_includes (toLowerCase rt (details t)) ''test this implementation'' \<longrightarrow>
        (\<exists>before after. map name_in (generateTaskBreakdownSuggestions rt t)
           = before @ [''Core Implementation for '' @ name t,
                       ''Testing and Validation for '' @ name t] @ after))"
proof -
  let ?d = "toLowerCase rt (details t)"
  have first: "generateTaskBreakdownSuggestions rt t =
     (if matchedPatterns rt t = [] then genericBreakdown t
      else map (patternSuggestion t) (filter (patternMatches ?d) (breakdownPatterns t)))"
    using generate_as_filter [of rt t] by (simp add: matchedPatterns_def)
  have second: "map (hd \<circ> keywords_p) (breakdownPatterns t)
        = [''research'', ''design'', ''implement'', ''test'', ''document'']"
    by (simp add: breakdownPatterns_def)
  have third: "\<exists>before after. map name_in (generateTaskBreakdownSuggestions rt t)
           = before @ [''Core Implementation for '' @ name t,
                       ''Testing and Validation for '' @ name t] @ after"
    if phrase: "str_includes ?d ''test this implementation''"
  proof -
    have "str_includes ?d (''test this '' @ ''implement'' @ ''ation'')" using phrase by simp
    then have impl: "str_includes ?d ''implement''" by (rule str_includes_part)
    have "str_includes ?d ([] @ ''test'' @ '' this implementation'')" using phrase by simp
    then have test: "str_includes ?d ''test''" by (rule str_includes_part)
    obtain ps where ps: "ps = breakdownPatterns t" by simp
    have split: "ps = take 2 ps @ [ps ! 2, ps ! 3] @ drop 4 ps"
      unfolding ps by (simp add: breakdownPatterns_def)
    have m2: "patternMatches ?d (ps ! 2)" and m3: "patternMatches ?d (ps ! 3)"
      unfolding ps using impl test by (simp_all add: breakdownPatterns_def patternMatches_def)
    have "filter (patternMatches ?d) ps
            = filter (patternMatches ?d) (take 2 ps) @ [ps ! 2, ps ! 3]
              @ filter (patternMatches ?d) (drop 4 ps)"
      using m2 m3 by (subst split) simp
    then have ms: "matchedPatterns rt t
            = filter (patternMatches ?d) (take 2 ps) @ [ps ! 2, ps ! 3]
              @ filter (patternMatches ?d) (drop 4 ps)"
      by (simp add: matchedPatterns_def ps)
    have n2: "name_in (patternSuggestion t (ps ! 2)) = ''Core Implementation for '' @ name t"
      and n3: "name_in (patternSuggestion t (ps ! 3)) = ''Testing and Validation for '' @ name t"
      unfolding ps by (simp_all add: breakdownPatterns_def patternSuggestion_def)
    have "map name_in (generateTaskBreakdownSuggestions rt t)
            = map name_in (map (patternSuggestion t) (filter (patternMatches ?d) (take 2 ps)))
              @ [''Core Implementation for '' @ name t, ''Testing and Validation for '' @ name t]
              @ map name_in (map (patternSuggestion t) (filter (patternMatches ?d) (drop 4 ps)))"
      using ms n2 n3 by (simp add: generate_as_filter)
    then show ?thesis by blast
  qed
  show ?thesis using first second third by blast
qed

theorem C6_template_order_witness:
  "str_includes (toLowerCase asciiRuntime
       (details (sampleTask \<lparr> details := ''Test this implementation'' \<rparr>)))
     ''test this implementation''
   \<and> map name_in (generateTaskBreakdownSuggestions asciiRuntime
                      (sampleTask \<lparr> details := ''Test this implementation'' \<rparr>))
       = [''Core Implementation for Parser'', ''Testing and Validation for Parser'']"
proof -
  let ?t = "sampleTask \<lparr> details := ''Test this implementation'' \<rparr>"
  have phrase: "str_includes (toLowerCase asciiRuntime (details ?t)) ''test this implementation''"
    by code_simp
  have others: "filter (patternMatches (toLowerCase asciiRuntime (details ?t)))
                  (breakdownPatterns ?t) = [breakdownPatterns ?t ! 2, breakdownPatterns ?t ! 3]"
    by code_simp
  have "matchedPatterns asciiRuntime ?t \<noteq> []"
    unfolding matchedPatterns_def others by simp
  then have "generateTaskBreakdownSuggestions asciiRuntime ?t
               = map (patternSuggestion ?t) [breakdownPatterns ?t ! 2, breakdownPatterns ?t ! 3]"
    using C6_template_order [of asciiRuntime ?t] others by simp
  then have "map name_in (generateTaskBreakdownSuggestions asciiRuntime ?t)
       = [''Core Implementation for Parser'', ''Testing and Validation for Parser'']"
    by (simp add: breakdownPatterns_def patternSuggestion_def sampleTask_def)
  then show ?thesis using phrase by blast
qed

subsection \<open>Zero as an absent value\<close>

lemma matched_complexity_update [simp]:
  "matchedPatterns rt (t \<lparr> complexity := c \<rparr>) = matchedPatterns rt t"
  by (simp add: matchedPatterns_def breakdownPatterns_def)

lemma matched_hours_update [simp]:
  "matchedPatterns rt (t \<lparr> estimatedHours := h \<rparr>) = matchedPatterns rt t"
  by (simp add: matchedPatterns_def breakdownPatterns_def)

lemma zero_complexity_pattern:
  "patternSuggestion (t \<lparr> complexity := Some 0 \<rparr>) = patternSuggestion (t \<lparr> complexity := None \<rparr>)"
  by (rule ext) (simp add: patternSuggestion_def orDefault_def)

lemma zero_hours_pattern:
  "patternSuggestion (t \<lparr> estimatedHours := Some 0 \<rparr>)
     = patternSuggestion (t \<lparr> estimatedHours := None \<rparr>)"
  by (rule ext) (simp add: patternSuggestion_def orDefault_def)

lemma zero_complexity_suggestions:
  "generateTaskBreakdownSuggestions rt (t \<lparr> complexity := Some 0 \<rparr>)
     = generateTaskBreakdownSuggestions rt (t \<lparr> complexity := None \<rparr>)"
  by (simp add: generate_as_filter zero_complexity_pattern genericBreakdown_def orDefault_def
      Let_def)

lemma zero_hours_suggestions:
  "generateTaskBreakdownSuggestions rt (t \<lparr> estimatedHours := Some 0 \<rparr>)
     = generateTaskBreakdownSuggestions rt (t \<lparr> estimatedHours := None \<rparr>)"
  by (simp add: generate_as_filter zero_hours_pattern genericBreakdown_def orDefault_def
      Let_def)

lemma zero_complexity_values:
  "map complexity_in (generateTaskBreakdownSuggestions rt (t \<lparr> complexity := Some 0 \<rparr>))
     = (if matchedPatterns rt t = [] then [max 1 (5 - 3), max 1 (5 - 2), max 1 (5 - 3)]
        else replicate (length (matchedPatterns rt t)) (max 1 (5 - 2)))"
  by (simp add: generate_as_filter genericBreakdown_def patternSuggestion_def orDefault_def
      comp_def map_replicate_const Let_def)

lemma zero_hours_values:
  "map estimatedHours_in (generateTaskBreakdownSuggestions rt (t \<lparr> estimatedHours := Some 0 \<rparr>))
     = (if matchedPatterns rt t = []
        then [Math_round (16 / 3), Math_round (16 / 3 * 2), Math_round (16 / 3)]
        else replicate (length (matchedPatterns rt t)) (Math_round (8 / 3)))"
  by (simp add: generate_as_filter genericBreakdown_def patternSuggestion_def orDefault_def
      comp_def map_replicate_const Let_def)

text \<open>
  Claim C10. A stored \<open>0\<close> counts as absent. A task with complexity \<open>0\<close> is scored as the
  same task without a complexity, from base \<open>5\<close>, and its suggestions are those of the
  task without a complexity, computed from \<open>5\<close>. A task with \<open>0\<close> estimated hours gets
  the suggestions of the task without an estimate: \<open>round (8 / 3) = 3\<close> hours for each
  template suggestion, and \<open>round (16 / 3) = 5\<close>, \<open>round (16 / 3 * 2) = 11\<close>, \<open>5\<close> for the
  generic phases.
\<close>

theorem C10_zero_is_absent:
  "calculateComplexityScore rt (t \<lparr> complexity := Some 0 \<rparr>)
     = calculateComplexityScore rt (t \<lparr> complexity := None \<rparr>)
   \<and> score (calculateComplexityScore rt (t \<lparr> complexity := Some 0 \<rparr>))
     = min 10 (5 + specIncrements rt t)
   \<and> generateTaskBreakdownSuggestions rt (t \<lparr> complexity := Some 0 \<rparr>)
     = generateTaskBreakdownSuggestions rt (t \<lparr> complexity := None \<rparr>)
   \<and> map complexity_in (generateTaskBreakdownSuggestions rt (t \<lparr> complexity := Some 0 \<rparr>))
     = (if matchedPatterns rt t = [] then [max 1 (5 - 3), max 1 (5 - 2), max 1 (5 - 3)]
        else replicate (length (matchedPatterns rt t)) (max 1 (5 - 2)))
   \<and> generateTaskBreakdownSuggestions rt (t \<lparr> estimatedHours := Some 0 \<rparr>)
     = generateTaskBreakdownSuggestions rt (t \<lparr> estimatedHours := None \<rparr>)
   \<and> map estimatedHours_in (generateTaskBreakdownSuggestions rt (t \<lparr> estimatedHours := Some 0 \<rparr>))
     = (if matchedPatterns rt t = []
        then [Math_round (16 / 3), Math_round (16 / 3 * 2), Math_round (16 / 3)]
        else replicate (length (matchedPatterns rt t)) (Math_round (8 / 3)))
   \<and> Math_round (8 / 3) = 3 \<and> Math_round (16 / 3) = 5 \<and> Math_round (16 / 3 * 2) = 11"
proof -
  have "score (calculateComplexityScore rt (t \<lparr> complexity := Some 0 \<rparr>))
          = min 10 (5 + specIncrements rt t)"
    by (simp add: score_as_sum orDefault_def)
  then show ?thesis
    using zero_complexity_score zero_complexity_suggestions zero_complexity_values
      zero_hours_suggestions zero_hours_values rounded_values
    by blast
qed

text \<open>On the sample task, whose details match no template, and on one that matches two.\<close>

theorem C10_zero_is_absent_witness:
  "score (calculateComplexityScore asciiRuntime (sampleTask \<lparr> complexity := Some 0 \<rparr>)) = 5
   \<and> map complexity_in
        (generateTaskBreakdownSuggestions asciiRuntime (sampleTask \<lparr> complexity := Some 0 \<rparr>))
       = [2, 3, 2]
   \<and> map estimatedHours_in
        (generateTaskBreakdownSuggestions asciiRuntime (sampleTask \<lparr> estimatedHours := Some 0 \<rparr>))
       = [5, 11, 5]
   \<and> map estimatedHours_in
        (generateTaskBreakdownSuggestions asciiRuntime
           (sampleTask \<lparr> details := ''Test this implementation'', estimatedHours := Some 0 \<rparr>))
       = [3, 3]"
proof -
  let ?u = "sampleTask \<lparr> details := ''Test this implementation'' \<rparr>"
  have incs: "specIncrements asciiRuntime sampleTask = 0" by code_simp
  have none: "matchedPatterns asciiRuntime sampleTask = []" by code_simp
  have two: "length (matchedPatterns asciiRuntime ?u) = 2" by code_simp
  then have some: "matchedPatterns asciiRuntime ?u \<noteq> []" by auto
  have rounds: "Math_round (8 / 3) = 3" "Math_round (16 / 3) = 5" "Math_round (32 / 3) = 11"
    by (simp_all add: Math_round_def floor_eq_iff)
  note plain = C10_zero_is_absent [of asciiRuntime sampleTask]
  note both = C10_zero_is_absent [of asciiRuntime ?u]
  from plain have a: "score (calculateComplexityScore asciiRuntime (sampleTask \<lparr> complexity := Some 0 \<rparr>))
      = min 10 (5 + specIncrements asciiRuntime sampleTask)"
    by blast
  from plain have b: "map complexity_in
        (generateTaskBreakdownSuggestions asciiRuntime (sampleTask \<lparr> complexity := Some 0 \<rparr>))
      = (if matchedPatterns asciiRuntime sampleTask = []
         then [max 1 (5 - 3), max 1 (5 - 2), max 1 (5 - 3)]
         else replicate (length (matchedPatterns asciiRuntime sampleTask)) (max 1 (5 - 2)))"
    by blast
  from plain have c: "map estimatedHours_in
        (generateTaskBreakdownSuggestions asciiRuntime (sampleTask \<lparr> estimatedHours := Some 0 \<rparr>))
      = (if matchedPatterns asciiRuntime sampleTask = []
         then [Math_round (16 / 3), Math_round (16 / 3 * 2), Math_round (16 / 3)]
         else replicate (length (matchedPatterns asciiRuntime sampleTask)) (Math_round (8 / 3)))"
    by blast
  from both have d: "map estimatedHours_in
        (generateTaskBreakdownSuggestions asciiRuntime (?u \<lparr> estimatedHours := Some 0 \<rparr>))
      = (if matchedPatterns asciiRuntime ?u = []
         then [Math_round (16 / 3), Math_round (16 / 3 * 2), Math_round (16 / 3)]
         else replicate (length (matchedPatterns asciiRuntime ?u)) (Math_round (8 / 3)))"
    by blast
  show ?thesis
    unfolding a b c d by (simp add: incs none two some numeral_2_eq_2 rounds)
qed

subsection \<open>The analysis loop\<close>

lemma analyzeStep_eq:
  "analyzeStep rt th sb st t =
     (if isFinished t then st
      else \<lparr> complexSoFar = complexSoFar st
                   @ (if th \<le> taskScore rt t then [analysed rt sb t] else []),
             totalComplexity = totalComplexity st + taskScore rt t,
             tasksWithComplexity = tasksWithComplexity st + 1 \<rparr>)"
  by (simp add: analyzeStep_def Let_def taskScore_def analysed_def)

lemma activeTasks_Cons:
  "activeTasks (t # ts) = (if isFinished t then activeTasks ts else t # activeTasks ts)"
  by (simp add: activeTasks_def isFinished_def)

lemma analyze_loop:
  "foldl (analyzeStep rt th sb) st tasks =
     \<lparr> complexSoFar = complexSoFar st
          @ map (analysed rt sb) (filter (\<lambda>t. th \<le> taskScore rt t) (activeTasks tasks)),
       totalComplexity = totalComplexity st + sum_list (map (taskScore rt) (activeTasks tasks)),
       tasksWithComplexity = tasksWithComplexity st + length (activeTasks tasks) \<rparr>"
proof (induction tasks arbitrary: st)
  case Nil
  then show ?case by (simp add: activeTasks_def)
next
  case (Cons t ts)
  have "foldl (analyzeStep rt th sb) st (t # ts)
          = foldl (analyzeStep rt th sb) (analyzeStep rt th sb st t) ts"
    by simp
  also have "\<dots> = \<lparr> complexSoFar = complexSoFar (analyzeStep rt th sb st t)
          @ map (analysed rt sb) (filter (\<lambda>t. th \<le> taskScore rt t) (activeTasks ts)),
       totalComplexity = totalComplexity (analyzeStep rt th sb st t)
          + sum_list (map (taskScore rt) (activeTasks ts)),
       tasksWithComplexity = tasksWithComplexity (analyzeStep rt th sb st t)
          + length (activeTasks ts) \<rparr>"
    by (rule Cons.IH)
  also have "\<dots> = \<lparr> complexSoFar = complexSoFar st
          @ map (analysed rt sb) (filter (\<lambda>t. th \<le> taskScore rt t) (activeTasks (t # ts))),
       totalComplexity = totalComplexity st + sum_list (map (taskScore rt) (activeTasks (t # ts))),
       tasksWithComplexity = tasksWithComplexity st + length (activeTasks (t # ts)) \<rparr>"
    by (simp add: analyzeStep_eq activeTasks_Cons add.assoc)
  finally show ?case .
qed

lemma analyze_result:
  "analyzeTaskComplexity rt tasks th sb =
     \<lparr> complexTasks = map (analysed rt sb)
          (filter (\<lambda>t. th \<le> taskScore rt t) (activeTasks tasks)),
       simpleTasksCount = int (length (activeTasks tasks))
          - int (length (filter (\<lambda>t. th \<le> taskScore rt t) (activeTasks tasks))),
       totalTasksAnalyzed = length (activeTasks tasks),
       averageComplexity = (if activeTasks tasks = [] then 0
          else sum_list (map (taskScore rt) (activeTasks tasks))
               / of_nat (length (activeTasks tasks))) \<rparr>"
  by (simp add: analyzeTaskComplexity_def analyze_loop Let_def)

lemma truncate_analysed: "task.truncate (analysed rt sb t) = t"
  by (simp add: analysed_def withAnalysis_def task.defs analysed_task.defs)

lemma analysed_fields:
  "analysisScore (analysed rt sb t) = taskScore rt t"
  "suggestions (analysed rt sb t) = (if sb then generateTaskBreakdownSuggestions rt t else [])"
  "id_task (analysed rt sb t) = id_task t"
  "projectId (analysed rt sb t) = projectId t"
  by (simp_all add: analysed_def withAnalysis_def task.defs analysed_task.defs taskScore_def)

lemma below_count:
  "int (length xs) - int (length (filter (\<lambda>t. th \<le> f t) xs))
     = int (length (filter (\<lambda>t. f t < (th::rat)) xs))"
proof -
  have "length (filter (\<lambda>t. th \<le> f t) xs) + length (filter (\<lambda>t. \<not> th \<le> f t) xs)
          = length xs"
    by (rule sum_length_filter_compl)
  moreover have "(\<lambda>t. \<not> th \<le> f t) = (\<lambda>t. f t < th)" by (simp add: not_le)
  ultimately show ?thesis by simp
qed

text \<open>
  Claim C3. Let the active tasks be those with neither \<^verbatim>\<open>completed\<close> true nor status
  \<open>done\<close>. The complex tasks are, in order, the active tasks whose score is at least the
  threshold, each entry carrying its task unchanged and its score; the count of simple
  tasks is the number of active tasks scoring below the threshold; the total is the
  number of active tasks; the average is the mean of their scores, and \<open>0\<close> when there is
  none. Finished tasks enter none of these.
\<close>

theorem C3_analysis_partition:
  "map task.truncate (complexTasks (analyzeTaskComplexity rt tasks th sb))
     = filter (\<lambda>t. th \<le> taskScore rt t) (activeTasks tasks)
   \<and> map analysisScore (complexTasks (analyzeTaskComplexity rt tasks th sb))
     = map (taskScore rt) (filter (\<lambda>t. th \<le> taskScore rt t) (activeTasks tasks))
   \<and> simpleTasksCount (analyzeTaskComplexity rt tasks th sb)
     = int (length (filter (\<lambda>t. taskScore rt t < th) (activeTasks tasks)))
   \<and> totalTasksAnalyzed (analyzeTaskComplexity rt tasks th sb) = length (activeTasks tasks)
   \<and> averageComplexity (analyzeTaskComplexity rt tasks th sb)
     = (if activeTasks tasks = [] then 0
        else sum_list (map (taskScore rt) (activeTasks tasks))
             / of_nat (length (activeTasks tasks)))"
  by (simp add: analyze_result below_count comp_def truncate_analysed analysed_fields)

text \<open>
  With threshold \<open>7\<close>: the task scoring exactly \<open>7\<close> is complex, the two finished tasks
  are left out although they would score \<open>9\<close>, and the mean is taken over two tasks.
\<close>

theorem C3_analysis_partition_witness:
  "map id_task (activeTasks mixedTasks) = [''seven'', ''three'']
   \<and> map (taskScore asciiRuntime) mixedTasks = [7, 9, 9, 3]
   \<and> map id_task (map task.truncate (complexTasks (analyzeTaskComplexity asciiRuntime mixedTasks 7 True)))
       = [''seven'']
   \<and> simpleTasksCount (analyzeTaskComplexity asciiRuntime mixedTasks 7 True) = 1
   \<and> totalTasksAnalyzed (analyzeTaskComplexity asciiRuntime mixedTasks 7 True) = 2
   \<and> averageComplexity (analyzeTaskComplexity asciiRuntime mixedTasks 7 True) = 5"
proof -
  have active: "map id_task (activeTasks mixedTasks) = [''seven'', ''three'']" by code_simp
  have scores: "map (taskScore asciiRuntime) mixedTasks = [7, 9, 9, 3]" by code_simp
  have complex: "map id_task (filter (\<lambda>t. 7 \<le> taskScore asciiRuntime t) (activeTasks mixedTasks))
      = [''seven'']"
    by code_simp
  have simple: "length (filter (\<lambda>t. taskScore asciiRuntime t < 7) (activeTasks mixedTasks)) = 1"
    by code_simp
  have total: "length (activeTasks mixedTasks) = 2" by code_simp
  have mean: "(if activeTasks mixedTasks = [] then 0
        else sum_list (map (taskScore asciiRuntime) (activeTasks mixedTasks))
             / of_nat (length (activeTasks mixedTasks))) = 5"
    by code_simp
  let ?r = "analyzeTaskComplexity asciiRuntime mixedTasks 7 True"
  note part = C3_analysis_partition [of asciiRuntime mixedTasks 7 True]
  from part have "map task.truncate (complexTasks ?r)
      = filter (\<lambda>t. 7 \<le> taskScore asciiRuntime t) (activeTasks mixedTasks)"
    by blast
  then have p1: "map id_task (map task.truncate (complexTasks ?r)) = [''seven'']"
    using complex by simp
  from part have "simpleTasksCount ?r
      = int (length (filter (\<lambda>t. taskScore asciiRuntime t < 7) (activeTasks mixedTasks)))"
    by blast
  then have p2: "simpleTasksCount ?r = 1" using simple by simp
  from part have "totalTasksAnalyzed ?r = length (activeTasks mixedTasks)" by blast
  then have p3: "totalTasksAnalyzed ?r = 2" using total by simp
  from part have "averageComplexity ?r
      = (if activeTasks mixedTasks = [] then 0
         else sum_list (map (taskScore asciiRuntime) (activeTasks mixedTasks))
              / of_nat (length (activeTasks mixedTasks)))"
    by blast
  then have p4: "averageComplexity ?r = 5" using mean by simp
  show ?thesis using active scores p1 p2 p3 p4 by blast
qed

text \<open>
  Claim C8. The generator never returns an empty list, so every complex task of an analysis
  that asked for breakdown suggestions has at least one suggestion.
\<close>

theorem C8_suggestions_nonempty:
  "generateTaskBreakdownSuggestions rt t \<noteq> []
   \<and> list_all (\<lambda>a. suggestions a \<noteq> [])
        (complexTasks (analyzeTaskComplexity rt tasks th True))"
  by (simp add: generate_nonempty analyze_result list_all_iff analysed_fields)

theorem C8_suggestions_nonempty_witness:
  "length (complexTasks (analyzeTaskComplexity asciiRuntime twoComplexTasks 7 True)) = 2
   \<and> list_all (\<lambda>a. suggestions a \<noteq> [])
        (complexTasks (analyzeTaskComplexity asciiRuntime twoComplexTasks 7 True))"
proof -
  have "length (filter (\<lambda>t. 7 \<le> taskScore asciiRuntime t) (activeTasks twoComplexTasks)) = 2"
    by code_simp
  then have "length (complexTasks (analyzeTaskComplexity asciiRuntime twoComplexTasks 7 True)) = 2"
    by (simp add: analyze_result)
  then show ?thesis
    using C8_suggestions_nonempty [of asciiRuntime sampleTask twoComplexTasks 7] by blast
qed

subsection \<open>Auto-creation\<close>

lemma createForTask_calls:
  assumes "neverRejects st"
  shows "\<exists>subs w'. createForTask st rt t ss w = (Inr (), w')
           \<and> calls w' = calls w @ map CreateSubtask subs
           \<and> store w' = foldl (\<lambda>s sub. snd (createSubtask st sub s)) (store w) subs
           \<and> map requestCore subs = map (expectedRequest t) ss"
proof (induction ss arbitrary: w)
  case Nil
  have "createForTask st rt t [] w = (Inr (), w) \<and> calls w = calls w @ map CreateSubtask []
          \<and> store w = foldl (\<lambda>s sub. snd (createSubtask st sub s)) (store w) []
          \<and> map requestCore [] = map (expectedRequest t) []"
    by simp
  then show ?case by blast
next
  case (Cons s ss)
  let ?sub = "subtaskFor rt (clockReads w) t s"
  let ?w0 = "w \<lparr> clockReads := clockReads w + 2 \<rparr>"
  obtain r s' where cs: "createSubtask st ?sub (store w) = (r, s')"
    by (cases "createSubtask st ?sub (store w)")
  have r: "r = Inr ()" using assms cs unfolding neverRejects_def by (metis fst_conv)
  let ?w1 = "?w0 \<lparr> store := s', calls := calls ?w0 @ [CreateSubtask ?sub] \<rparr>"
  have call: "callCreateSubtask st ?sub ?w0 = (Inr (), ?w1)"
    using cs r by (simp add: callCreateSubtask_def)
  obtain subs w' where rest: "createForTask st rt t ss ?w1 = (Inr (), w')"
      "calls w' = calls ?w1 @ map CreateSubtask subs"
      "store w' = foldl (\<lambda>s sub. snd (createSubtask st sub s)) (store ?w1) subs"
      "map requestCore subs = map (expectedRequest t) ss"
    using Cons.IH [of ?w1] by blast
  have core: "requestCore ?sub = expectedRequest t s"
    by (simp add: requestCore_def expectedRequest_def subtaskFor_def)
  have "createForTask st rt t (s # ss) w = (Inr (), w')"
    using call rest(1) by simp
  moreover have "calls w' = calls w @ map CreateSubtask (?sub # subs)"
    using rest(2) by simp
  moreover have "store w' = foldl (\<lambda>s sub. snd (createSubtask st sub s)) (store w) (?sub # subs)"
    using rest(3) cs by simp
  moreover have "map requestCore (?sub # subs) = map (expectedRequest t) (s # ss)"
    using rest(4) core by simp
  ultimately show ?case by blast
qed

lemma autoCreate_calls:
  assumes "neverRejects st"
  shows "\<exists>subs w'. autoCreateSubtasksFromSuggestions st rt ts w = (Inr (), w')
           \<and> calls w' = calls w @ map CreateSubtask subs
           \<and> store w' = foldl (\<lambda>s sub. snd (createSubtask st sub s)) (store w) subs
           \<and> map requestCore subs
               = concat (map (\<lambda>t. map (expectedRequest t) (suggestions t)) ts)"
proof (induction ts arbitrary: w)
  case Nil
  have "autoCreateSubtasksFromSuggestions st rt [] w = (Inr (), w)
          \<and> calls w = calls w @ map CreateSubtask []
          \<and> store w = foldl (\<lambda>s sub. snd (createSubtask st sub s)) (store w) []
          \<and> map requestCore [] = concat (map (\<lambda>t. map (expectedRequest t) (suggestions t)) [])"
    by simp
  then show ?case by blast
next
  case (Cons t ts)
  obtain subs1 w1 where one: "createForTask st rt t (suggestions t) w = (Inr (), w1)"
      "calls w1 = calls w @ map CreateSubtask subs1"
      "store w1 = foldl (\<lambda>s sub. snd (createSubtask st sub s)) (store w) subs1"
      "map requestCore subs1 = map (expectedRequest t) (suggestions t)"
    using createForTask_calls [OF assms, of rt t "suggestions t" w] by blast
  obtain subs2 w2 where more: "autoCreateSubtasksFromSuggestions st rt ts w1 = (Inr (), w2)"
      "calls w2 = calls w1 @ map CreateSubtask subs2"
      "store w2 = foldl (\<lambda>s sub. snd (createSubtask st sub s)) (store w1) subs2"
      "map requestCore subs2 = concat (map (\<lambda>t. map (expectedRequest t) (suggestions t)) ts)"
    using Cons.IH [of w1] by blast
  have "autoCreateSubtasksFromSuggestions st rt (t # ts) w = (Inr (), w2)"
    using one(1) more(1) by simp
  moreover have "calls w2 = calls w @ map CreateSubtask (subs1 @ subs2)"
    using one(2) more(2) by simp
  moreover have "store w2 = foldl (\<lambda>s sub. snd (createSubtask st sub s)) (store w) (subs1 @ subs2)"
    using one(3) more(3) by simp
  moreover have "map requestCore (subs1 @ subs2)
      = concat (map (\<lambda>t. map (expectedRequest t) (suggestions t)) (t # ts))"
    using one(4) more(4) by simp
  ultimately show ?case by blast
qed

text \<open>
  Claim C7, as amended. When auto-creation is requested, the tasks have been selected and
  the storage rejects no creation request, the requests the handler makes after the
  selection are creation requests only: one for each suggestion of each complex task, in
  order, carrying the suggestion's name and details, the task's id as \<^verbatim>\<open>taskId\<close>, the
  task's \<^verbatim>\<open>projectId\<close> and \<^verbatim>\<open>completed\<close> false. Their number is the number of
  suggestions of the complex tasks, each of them has been applied to the storage, in
  order, and the response is not an error.
\<close>

theorem C7_one_request_per_suggestion:
  assumes "autoCreateSubtasks a"
    and "neverRejects st"
    and "selectTasks st a w = (Inr (Inr tasks), w1)"
    and "tasks \<noteq> []"
  shows "\<exists>subs. calls (snd (handler st rt a w)) = calls w1 @ map CreateSubtask subs
           \<and> store (snd (handler st rt a w))
               = foldl (\<lambda>s sub. snd (createSubtask st sub s)) (store w1) subs
           \<and> map requestCore subs
               = concat (map (\<lambda>t. map (expectedRequest t) (suggestions t))
                   (complexTasks (analyzeTaskComplexity rt tasks (complexityThreshold a)
                      (suggestBreakdown a))))
           \<and> length subs
               = sum_list (map (\<lambda>t. length (suggestions t))
                   (complexTasks (analyzeTaskComplexity rt tasks (complexityThreshold a)
                      (suggestBreakdown a))))
           \<and> isError (fst (handler st rt a w)) = None"
proof -
  let ?cts = "complexTasks (analyzeTaskComplexity rt tasks (complexityThreshold a)
                (suggestBreakdown a))"
  have count: "length subs = sum_list (map (\<lambda>t. length (suggestions t)) ?cts)"
    if "map requestCore subs = concat (map (\<lambda>t. map (expectedRequest t) (suggestions t)) ?cts)"
    for subs
  proof -
    have "length subs = length (map requestCore subs)" by simp
    also have "\<dots> = length (concat (map (\<lambda>t. map (expectedRequest t) (suggestions t)) ?cts))"
      using that by simp
    also have "\<dots> = sum_list (map (\<lambda>t. length (suggestions t)) ?cts)"
      by (simp add: length_concat comp_def)
    finally show ?thesis .
  qed
  show ?thesis
  proof (cases "?cts = []")
    case True
    then have run: "snd (handler st rt a w) = w1" "isError (fst (handler st rt a w)) = None"
      using assms by (simp_all add: handler_def tryBlock_def Let_def)
    have "calls (snd (handler st rt a w)) = calls w1 @ map CreateSubtask []
        \<and> store (snd (handler st rt a w))
            = foldl (\<lambda>s sub. snd (createSubtask st sub s)) (store w1) []
        \<and> map requestCore [] = concat (map (\<lambda>t. map (expectedRequest t) (suggestions t)) ?cts)"
      using True run(1) by simp
    then show ?thesis using count run(2) by blast
  next
    case False
    obtain subs w2 where run: "autoCreateSubtasksFromSuggestions st rt ?cts w1 = (Inr (), w2)"
        "calls w2 = calls w1 @ map CreateSubtask subs"
        "store w2 = foldl (\<lambda>s sub. snd (createSubtask st sub s)) (store w1) subs"
        "map requestCore subs = concat (map (\<lambda>t. map (expectedRequest t) (suggestions t)) ?cts)"
      using autoCreate_calls [OF assms(2), of rt ?cts w1] by blast
    have "snd (handler st rt a w) = w2" "isError (fst (handler st rt a w)) = None"
      using assms False run(1) by (simp_all add: handler_def tryBlock_def Let_def)
    then show ?thesis using run(2,3,4) count by blast
  qed
qed

lemma createdBy_requests: "createdBy (map CreateSubtask subs) = subs"
  by (induction subs) simp_all

lemma createdBy_append: "createdBy (xs @ ys) = createdBy xs @ createdBy ys"
  by (induction xs rule: createdBy.induct) simp_all

text \<open>
  Two complex tasks in two projects, three suggestions each: after \<^verbatim>\<open>getProjects\<close> and two
  \<^verbatim>\<open>getTasks\<close> the handler makes exactly six creation requests, and the storage holds
  the six subtasks.
\<close>

theorem C7_one_request_per_suggestion_witness:
  "autoCreateSubtasks allTasksArgs
   \<and> neverRejects (listStorage twoComplexTasks twoProjects)
   \<and> selectTasks (listStorage twoComplexTasks twoProjects) allTasksArgs emptyWorld
       = (Inr (Inr twoComplexTasks),
          emptyWorld \<lparr> calls := [GetProjects, GetTasks ''p1'', GetTasks ''p2''] \<rparr>)
   \<and> twoComplexTasks \<noteq> []
   \<and> length (calls (snd (handler (listStorage twoComplexTasks twoProjects) asciiRuntime
                            allTasksArgs emptyWorld))) = 9
   \<and> length (createdBy (calls (snd (handler (listStorage twoComplexTasks twoProjects)
                            asciiRuntime allTasksArgs emptyWorld)))) = 6
   \<and> store (snd (handler (listStorage twoComplexTasks twoProjects) asciiRuntime
                     allTasksArgs emptyWorld))
       = createdBy (calls (snd (handler (listStorage twoComplexTasks twoProjects)
                            asciiRuntime allTasksArgs emptyWorld)))
   \<and> map taskId_sub (createdBy (calls (snd (handler (listStorage twoComplexTasks twoProjects)
                            asciiRuntime allTasksArgs emptyWorld))))
       = [''a'', ''a'', ''a'', ''b'', ''b'', ''b'']
   \<and> map projectId_sub (createdBy (calls (snd (handler (listStorage twoComplexTasks twoProjects)
                            asciiRuntime allTasksArgs emptyWorld))))
       = [''p1'', ''p1'', ''p1'', ''p2'', ''p2'', ''p2'']"
proof -
  let ?st = "listStorage twoComplexTasks twoProjects"
  let ?w1 = "emptyWorld \<lparr> calls := [GetProjects, GetTasks ''p1'', GetTasks ''p2''] \<rparr>"
  let ?cts = "complexTasks (analyzeTaskComplexity asciiRuntime twoComplexTasks
                (complexityThreshold allTasksArgs) (suggestBreakdown allTasksArgs))"
  let ?made = "calls (snd (handler ?st asciiRuntime allTasksArgs emptyWorld))"
  have auto: "autoCreateSubtasks allTasksArgs" by (simp add: allTasksArgs_def)
  have never: "neverRejects ?st" by (simp add: neverRejects_def listStorage_def)
  have sel: "selectTasks ?st allTasksArgs emptyWorld = (Inr (Inr twoComplexTasks), ?w1)"
    by code_simp
  have ne: "twoComplexTasks \<noteq> []" by (simp add: twoComplexTasks_def)
  have ids: "map (\<lambda>c. fst (snd (snd c)))
               (concat (map (\<lambda>t. map (expectedRequest t) (suggestions t)) ?cts))
      = [''a'', ''a'', ''a'', ''b'', ''b'', ''b'']"
    by code_simp
  have pids: "map (\<lambda>c. fst (snd (snd (snd c))))
               (concat (map (\<lambda>t. map (expectedRequest t) (suggestions t)) ?cts))
      = [''p1'', ''p1'', ''p1'', ''p2'', ''p2'', ''p2'']"
    by code_simp
  have six: "sum_list (map (\<lambda>t. length (suggestions t)) ?cts) = 6" by code_simp
  have "\<exists>subs. ?made = calls ?w1 @ map CreateSubtask subs
          \<and> store (snd (handler ?st asciiRuntime allTasksArgs emptyWorld))
              = foldl (\<lambda>s sub. snd (createSubtask ?st sub s)) (store ?w1) subs
          \<and> map requestCore subs
              = concat (map (\<lambda>t. map (expectedRequest t) (suggestions t)) ?cts)
          \<and> length subs = sum_list (map (\<lambda>t. length (suggestions t)) ?cts)
          \<and> isError (fst (handler ?st asciiRuntime allTasksArgs emptyWorld)) = None"
    by (rule C7_one_request_per_suggestion [OF auto never sel ne])
  then obtain subs where made: "?made = calls ?w1 @ map CreateSubtask subs"
    and stored: "store (snd (handler ?st asciiRuntime allTasksArgs emptyWorld))
              = foldl (\<lambda>s sub. snd (createSubtask ?st sub s)) (store ?w1) subs"
    and cores: "map requestCore subs
              = concat (map (\<lambda>t. map (expectedRequest t) (suggestions t)) ?cts)"
    and count: "length subs = sum_list (map (\<lambda>t. length (suggestions t)) ?cts)"
    by (elim exE conjE)
  have appended: "foldl (\<lambda>s sub. snd (createSubtask ?st sub s)) s0 xs = s0 @ xs" for s0 xs
    by (induction xs arbitrary: s0) (simp_all add: listStorage_def)
  have created: "createdBy ?made = subs"
    unfolding made by (simp add: createdBy_append createdBy_requests emptyWorld_def)
  have kept: "store (snd (handler ?st asciiRuntime allTasksArgs emptyWorld)) = subs"
    unfolding stored appended by (simp add: emptyWorld_def)
  have n6: "length subs = 6" using count six by simp
  have n9: "length ?made = 9" unfolding made using n6 by (simp add: emptyWorld_def)
  have "map taskId_sub subs = map (\<lambda>c. fst (snd (snd c))) (map requestCore subs)"
    by (simp add: requestCore_def comp_def)
  then have t: "map taskId_sub subs = [''a'', ''a'', ''a'', ''b'', ''b'', ''b'']"
    unfolding cores ids .
  have "map projectId_sub subs = map (\<lambda>c. fst (snd (snd (snd c)))) (map requestCore subs)"
    by (simp add: requestCore_def comp_def)
  then have p: "map projectId_sub subs = [''p1'', ''p1'', ''p1'', ''p2'', ''p2'', ''p2'']"
    unfolding cores pids .
  show ?thesis
    unfolding created kept using auto never sel ne n9 n6 t p by (intro conjI) simp_all
qed

text \<open>
  Claim C7 as stated fails: auto-creation is requested and the two complex tasks carry six
  suggestions, yet on a storage that rejects the second creation request the handler makes
  two creation requests.
\<close>

theorem C7_counterexample:
  "autoCreateSubtasks allTasksArgs
   \<and> sum_list (map (\<lambda>t. length (suggestions t))
        (complexTasks (analyzeTaskComplexity asciiRuntime twoComplexTasks
           (complexityThreshold allTasksArgs) (suggestBreakdown allTasksArgs)))) = 6
   \<and> length (createdBy (calls (snd (handler
        (laterCreationsRejected twoComplexTasks twoProjects OtherValue) asciiRuntime
        allTasksArgs emptyWorld)))) = 2"
  by code_simp

subsection \<open>The report\<close>

text \<open>
  Claim C4 does not hold of the code. The function returns right after the all-clear
  message, so its last \<^verbatim>\<open>else\<close> branch, which would append the pointer to
  \<^verbatim>\<open>get_next_task_recommendation\<close>, is never reached: the report of a result without
  complex tasks is the summary followed by the all-clear message, and does not mention
  \<^verbatim>\<open>get_next_task_recommendation\<close>, which the pointer text does.
\<close>

theorem C4_report_stops_at_all_clear:
  "generateComplexityAnalysisReport asciiRuntime allSimple 7 False
     = reportSummary asciiRuntime allSimple 7 @ allClear
   \<and> \<not> str_includes (generateComplexityAnalysisReport asciiRuntime allSimple 7 False)
          ''get_next_task_recommendation''
   \<and> str_includes nextStepPointer ''get_next_task_recommendation''"
  by code_simp

lemma report_without_complex_tasks:
  assumes "complexTasks r = []"
  shows "generateComplexityAnalysisReport rt r th ac = reportSummary rt r th @ allClear"
  using assms by (simp add: generateComplexityAnalysisReport_def)

subsection \<open>The handler\<close>

lemma handler_catch:
  assumes "tryBlock st rt a w = (Inl e, w')"
  shows "handler st rt a w
           = (\<lparr> content_text = ''Error analyzing task complexity: ''
                  @ (case e of ErrorInstance m \<Rightarrow> m | OtherValue \<Rightarrow> ''Unknown error''),
                isError = Some True \<rparr>, w')"
  using assms by (simp add: handler_def errorMessage_def)

lemma selection_rejected:
  assumes "selectTasks st a w = (Inl e, w')"
  shows "tryBlock st rt a w = (Inl e, w')"
  using assms by (simp add: tryBlock_def)

lemma collectProjectTasks_rejected:
  assumes "collectProjectTasks st pre acc w = (Inr acc1, w1)"
    and "getTasks st (id_project p) (store w1) = (Inl e, s2)"
  shows "collectProjectTasks st (pre @ p # post) acc w
           = (Inl e, w1 \<lparr> store := s2, calls := calls w1 @ [GetTasks (id_project p)] \<rparr>)"
  using assms
proof (induction pre arbitrary: acc w)
  case Nil
  then show ?case by (simp add: callGetTasks_def)
next
  case (Cons q pre)
  obtain r w0 where step: "callGetTasks st (id_project q) w = (r, w0)"
    by (cases "callGetTasks st (id_project q) w")
  show ?case
  proof (cases r)
    case (Inl x)
    then show ?thesis using Cons.prems(1) step by simp
  next
    case (Inr ts)
    then have "collectProjectTasks st pre (acc @ ts) w0 = (Inr acc1, w1)"
      using Cons.prems(1) step by simp
    then have "collectProjectTasks st (pre @ p # post) (acc @ ts) w0
           = (Inl e, w1 \<lparr> store := s2, calls := calls w1 @ [GetTasks (id_project p)] \<rparr>)"
      using Cons.IH Cons.prems(2) by blast
    then show ?thesis using step Inr by simp
  qed
qed

lemma createForTask_rejected:
  assumes "createForTask st rt t pre w = (Inr (), w1)"
    and "createSubtask st (subtaskFor rt (clockReads w1) t s) (store w1) = (Inl e, s2)"
  shows "createForTask st rt t (pre @ s # post) w
           = (Inl e, w1 \<lparr> clockReads := clockReads w1 + 2, store := s2,
                          calls := calls w1 @ [CreateSubtask (subtaskFor rt (clockReads w1) t s)] \<rparr>)"
  using assms
proof (induction pre arbitrary: w)
  case Nil
  then show ?case by (simp add: callCreateSubtask_def)
next
  case (Cons q pre)
  obtain r w0 where step:
      "callCreateSubtask st (subtaskFor rt (clockReads w) t q)
         (w \<lparr> clockReads := clockReads w + 2 \<rparr>) = (r, w0)"
    by (cases "callCreateSubtask st (subtaskFor rt (clockReads w) t q)
                 (w \<lparr> clockReads := clockReads w + 2 \<rparr>)")
  show ?case
  proof (cases r)
    case (Inl x)
    then show ?thesis using Cons.prems(1) step by simp
  next
    case (Inr u)
    then have "createForTask st rt t pre w0 = (Inr (), w1)"
      using Cons.prems(1) step by simp
    then have "createForTask st rt t (pre @ s # post) w0
           = (Inl e, w1 \<lparr> clockReads := clockReads w1 + 2, store := s2,
                calls := calls w1 @ [CreateSubtask (subtaskFor rt (clockReads w1) t s)] \<rparr>)"
      using Cons.IH Cons.prems(2) by blast
    then show ?thesis using step Inr by simp
  qed
qed

lemma autoCreate_rejected:
  assumes "autoCreateSubtasksFromSuggestions st rt pre w = (Inr (), w1)"
    and "createForTask st rt t (suggestions t) w1 = (Inl e, w2)"
  shows "autoCreateSubtasksFromSuggestions st rt (pre @ t # post) w = (Inl e, w2)"
  using assms
proof (induction pre arbitrary: w)
  case Nil
  then show ?case by simp
next
  case (Cons q pre)
  obtain r w0 where step: "createForTask st rt q (suggestions q) w = (r, w0)"
    by (cases "createForTask st rt q (suggestions q) w")
  show ?case
  proof (cases r)
    case (Inl x)
    then show ?thesis using Cons.prems(1) step by simp
  next
    case (Inr u)
    then have "autoCreateSubtasksFromSuggestions st rt pre w0 = (Inr (), w1)"
      using Cons.prems(1) step by simp
    then have "autoCreateSubtasksFromSuggestions st rt (pre @ t # post) w0 = (Inl e, w2)"
      using Cons.IH Cons.prems(2) by blast
    then show ?thesis using step Inr by simp
  qed
qed

text \<open>
  Claim C9. The handler is a function to a response: nothing leaves it as an exception.
  When a task id is given and storage has no such task, the response is the error-flagged
  not-found text, and the one request made is the lookup: nothing is analysed or created.
  A rejection by the storage, wherever it happens, becomes the error-flagged text
  \<open>Error analyzing task complexity: \<close> followed by the message of the \<^verbatim>\<open>Error\<close> or, for
  any other rejected value, \<open>Unknown error\<close>: a rejected \<^verbatim>\<open>getTask\<close>, a rejected
  \<^verbatim>\<open>getTasks\<close> for the given project, a rejected \<^verbatim>\<open>getProjects\<close>, a rejected \<^verbatim>\<open>getTasks\<close>
  for any project of the enumeration, and a rejected \<^verbatim>\<open>createSubtask\<close> for any suggestion
  of any complex task. The world is then as the rejected operation left it.
\<close>

theorem C9_failures_become_responses:
  \<open>(truthy (taskId a) \<and> getTask st (the (taskId a)) (store w) = (Inr None, s') \<longrightarrow>
      handler st rt a w
        = (\<lparr> content_text = ''Error: Task with ID "'' @ the (taskId a) @ ''" not found.'',
             isError = Some True \<rparr>,
           w \<lparr> store := s', calls := calls w @ [GetTask (the (taskId a))] \<rparr>))
   \<and> (truthy (taskId a) \<and> getTask st (the (taskId a)) (store w) = (Inl e, s') \<longrightarrow>
      handler st rt a w
        = (\<lparr> content_text = ''Error analyzing task complexity: ''
               @ (case e of ErrorInstance m \<Rightarrow> m | OtherValue \<Rightarrow> ''Unknown error''),
             isError = Some True \<rparr>,
           w \<lparr> store := s', calls := calls w @ [GetTask (the (taskId a))] \<rparr>))
   \<and> (\<not> truthy (taskId a) \<and> truthy (projectId_arg a)
        \<and> getTasks st (the (projectId_arg a)) (store w) = (Inl e, s') \<longrightarrow>
      handler st rt a w
        = (\<lparr> content_text = ''Error analyzing task complexity: ''
               @ (case e of ErrorInstance m \<Rightarrow> m | OtherValue \<Rightarrow> ''Unknown error''),
             isError = Some True \<rparr>,
           w \<lparr> store := s', calls := calls w @ [GetTasks (the (projectId_arg a))] \<rparr>))
   \<and> (\<not> truthy (taskId a) \<and> \<not> truthy (projectId_arg a)
        \<and> getProjects st (store w) = (Inl e, s') \<longrightarrow>
      handler st rt a w
        = (\<lparr> content_text = ''Error analyzing task complexity: ''
               @ (case e of ErrorInstance m \<Rightarrow> m | OtherValue \<Rightarrow> ''Unknown error''),
             isError = Some True \<rparr>,
           w \<lparr> store := s', calls := calls w @ [GetProjects] \<rparr>))
   \<and> (\<not> truthy (taskId a) \<and> \<not> truthy (projectId_arg a)
        \<and> getProjects st (store w) = (Inr (pre @ p # post), s1)
        \<and> collectProjectTasks st pre []
             (w \<lparr> store := s1, calls := calls w @ [GetProjects] \<rparr>) = (Inr found, w1)
        \<and> getTasks st (id_project p) (store w1) = (Inl e, s') \<longrightarrow>
      handler st rt a w
        = (\<lparr> content_text = ''Error analyzing task complexity: ''
               @ (case e of ErrorInstance m \<Rightarrow> m | OtherValue \<Rightarrow> ''Unknown error''),
             isError = Some True \<rparr>,
           w1 \<lparr> store := s', calls := calls w1 @ [GetTasks (id_project p)] \<rparr>))
   \<and> (selectTasks st a w = (Inr (Inr tasks), w1) \<and> tasks \<noteq> [] \<and> autoCreateSubtasks a
        \<and> complexTasks (analyzeTaskComplexity rt tasks (complexityThreshold a)
             (suggestBreakdown a)) = before @ t # after
        \<and> autoCreateSubtasksFromSuggestions st rt before w1 = (Inr (), w2)
        \<and> suggestions t = earlier @ s # later
        \<and> createForTask st rt t earlier w2 = (Inr (), w3)
        \<and> createSubtask st (subtaskFor rt (clockReads w3) t s) (store w3) = (Inl e, s') \<longrightarrow>
      handler st rt a w
        = (\<lparr> content_text = ''Error analyzing task complexity: ''
               @ (case e of ErrorInstance m \<Rightarrow> m | OtherValue \<Rightarrow> ''Unknown error''),
             isError = Some True \<rparr>,
           w3 \<lparr> clockReads := clockReads w3 + 2, store := s',
                calls := calls w3 @ [CreateSubtask (subtaskFor rt (clockReads w3) t s)] \<rparr>))\<close>
proof -
  have notFound: \<open>handler st rt a w
        = (\<lparr> content_text = ''Error: Task with ID "'' @ the (taskId a) @ ''" not found.'',
             isError = Some True \<rparr>,
           w \<lparr> store := s', calls := calls w @ [GetTask (the (taskId a))] \<rparr>)\<close>
    if "truthy (taskId a)" "getTask st (the (taskId a)) (store w) = (Inr None, s')"
    using that
    by (simp add: handler_def tryBlock_def selectTasks_def callGetTask_def notFoundResponse_def)
  have lookup: "selectTasks st a w
        = (Inl e, w \<lparr> store := s', calls := calls w @ [GetTask (the (taskId a))] \<rparr>)"
    if "truthy (taskId a)" "getTask st (the (taskId a)) (store w) = (Inl e, s')"
    using that by (simp add: selectTasks_def callGetTask_def)
  have project: "selectTasks st a w
        = (Inl e, w \<lparr> store := s', calls := calls w @ [GetTasks (the (projectId_arg a))] \<rparr>)"
    if "\<not> truthy (taskId a)" "truthy (projectId_arg a)"
      "getTasks st (the (projectId_arg a)) (store w) = (Inl e, s')"
    using that by (simp add: selectTasks_def callGetTasks_def)
  have projects: "selectTasks st a w
        = (Inl e, w \<lparr> store := s', calls := calls w @ [GetProjects] \<rparr>)"
    if "\<not> truthy (taskId a)" "\<not> truthy (projectId_arg a)"
      "getProjects st (store w) = (Inl e, s')"
    using that by (simp add: selectTasks_def callGetProjects_def)
  have enumeration: "selectTasks st a w
        = (Inl e, w1 \<lparr> store := s', calls := calls w1 @ [GetTasks (id_project p)] \<rparr>)"
    if "\<not> truthy (taskId a)" "\<not> truthy (projectId_arg a)"
      "getProjects st (store w) = (Inr (pre @ p # post), s1)"
      "collectProjectTasks st pre []
         (w \<lparr> store := s1, calls := calls w @ [GetProjects] \<rparr>) = (Inr found, w1)"
      "getTasks st (id_project p) (store w1) = (Inl e, s')"
    using that collectProjectTasks_rejected [OF that(4) that(5), of post]
    by (simp add: selectTasks_def callGetProjects_def)
  have creation: "tryBlock st rt a w
        = (Inl e, w3 \<lparr> clockReads := clockReads w3 + 2, store := s',
                calls := calls w3 @ [CreateSubtask (subtaskFor rt (clockReads w3) t s)] \<rparr>)"
    if "selectTasks st a w = (Inr (Inr tasks), w1)" "tasks \<noteq> []" "autoCreateSubtasks a"
      "complexTasks (analyzeTaskComplexity rt tasks (complexityThreshold a)
             (suggestBreakdown a)) = before @ t # after"
      "autoCreateSubtasksFromSuggestions st rt before w1 = (Inr (), w2)"
      "suggestions t = earlier @ s # later"
      "createForTask st rt t earlier w2 = (Inr (), w3)"
      "createSubtask st (subtaskFor rt (clockReads w3) t s) (store w3) = (Inl e, s')"
  proof -
    have "createForTask st rt t (suggestions t) w2
        = (Inl e, w3 \<lparr> clockReads := clockReads w3 + 2, store := s',
                calls := calls w3 @ [CreateSubtask (subtaskFor rt (clockReads w3) t s)] \<rparr>)"
      unfolding that(6) by (rule createForTask_rejected [OF that(7) that(8)])
    then have "autoCreateSubtasksFromSuggestions st rt (before @ t # after) w1
        = (Inl e, w3 \<lparr> clockReads := clockReads w3 + 2, store := s',
                calls := calls w3 @ [CreateSubtask (subtaskFor rt (clockReads w3) t s)] \<rparr>)"
      by (rule autoCreate_rejected [OF that(5)])
    then show ?thesis
      using that(1,2,3,4) by (simp add: tryBlock_def Let_def)
  qed
  show ?thesis
    using notFound handler_catch [OF selection_rejected [OF lookup]]
      handler_catch [OF selection_rejected [OF project]]
      handler_catch [OF selection_rejected [OF projects]]
      handler_catch [OF selection_rejected [OF enumeration]]
      handler_catch [OF creation]
    by blast
qed


lemma split_at_first:
  assumes "xs \<noteq> []"
  shows "xs = [] @ hd xs # tl xs"
  using assms by simp

lemma split_at_second:
  assumes "1 < length xs"
  shows "xs = [hd xs] @ xs ! 1 # drop 2 xs"
proof (cases xs)
  case Nil
  then show ?thesis using assms by simp
next
  case (Cons a ys)
  then show ?thesis using assms by (cases ys) simp_all
qed

text \<open>
  One run for each part: a task id storage does not know; a storage that rejects every
  operation, asked for a task, for the tasks of a project and for all tasks; a storage that
  rejects \<^verbatim>\<open>getTasks\<close> for the second project; and a storage that rejects the second
  creation request.
\<close>

theorem C9_failures_become_responses_witness:
  \<open>handler (listStorage twoComplexTasks twoProjects) asciiRuntime
        (allTasksArgs \<lparr> taskId := Some ''zz'' \<rparr>) emptyWorld
       = (\<lparr> content_text = ''Error: Task with ID "zz" not found.'', isError = Some True \<rparr>,
          emptyWorld \<lparr> calls := [GetTask ''zz''] \<rparr>)
   \<and> handler (rejectingStorage (ErrorInstance ''disk full'')) asciiRuntime
        (allTasksArgs \<lparr> taskId := Some ''zz'' \<rparr>) emptyWorld
       = (\<lparr> content_text = ''Error analyzing task complexity: disk full'', isError = Some True \<rparr>,
          emptyWorld \<lparr> calls := [GetTask ''zz''] \<rparr>)
   \<and> handler (rejectingStorage OtherValue) asciiRuntime
        (allTasksArgs \<lparr> projectId_arg := Some ''p1'' \<rparr>) emptyWorld
       = (\<lparr> content_text = ''Error analyzing task complexity: Unknown error'',
            isError = Some True \<rparr>,
          emptyWorld \<lparr> calls := [GetTasks ''p1''] \<rparr>)
   \<and> handler (rejectingStorage (ErrorInstance ''disk full'')) asciiRuntime allTasksArgs emptyWorld
       = (\<lparr> content_text = ''Error analyzing task complexity: disk full'', isError = Some True \<rparr>,
          emptyWorld \<lparr> calls := [GetProjects] \<rparr>)
   \<and> handler (projectRejected twoComplexTasks twoProjects ''p2'' OtherValue) asciiRuntime
        allTasksArgs emptyWorld
       = (\<lparr> content_text = ''Error analyzing task complexity: Unknown error'',
            isError = Some True \<rparr>,
          selectedWorld)
   \<and> selectTasks (laterCreationsRejected twoComplexTasks twoProjects (ErrorInstance ''quota''))
        allTasksArgs emptyWorld = (Inr (Inr twoComplexTasks), selectedWorld)
   \<and> createForTask (laterCreationsRejected twoComplexTasks twoProjects (ErrorInstance ''quota''))
        asciiRuntime (hd analysedTwo) [hd (suggestions (hd analysedTwo))] selectedWorld
       = (Inr (), oneCreatedWorld)
   \<and> createSubtask (laterCreationsRejected twoComplexTasks twoProjects (ErrorInstance ''quota''))
        (subtaskFor asciiRuntime 2 (hd analysedTwo) (suggestions (hd analysedTwo) ! 1))
        [firstCreated]
       = (Inl (ErrorInstance ''quota''), [firstCreated])
   \<and> handler (laterCreationsRejected twoComplexTasks twoProjects (ErrorInstance ''quota''))
        asciiRuntime allTasksArgs emptyWorld
       = (\<lparr> content_text = ''Error analyzing task complexity: quota'', isError = Some True \<rparr>,
          oneCreatedWorld \<lparr> clockReads := 4,
            calls := calls oneCreatedWorld
              @ [CreateSubtask (subtaskFor asciiRuntime 2 (hd analysedTwo)
                                  (suggestions (hd analysedTwo) ! 1))] \<rparr>)\<close>
proof -
  let ?zz = "allTasksArgs \<lparr> taskId := Some ''zz'' \<rparr>"
  let ?p1 = "allTasksArgs \<lparr> projectId_arg := Some ''p1'' \<rparr>"
  let ?ok = "listStorage twoComplexTasks twoProjects"
  let ?disk = "rejectingStorage (ErrorInstance ''disk full'')"
  let ?other = "rejectingStorage OtherValue"
  let ?half = "projectRejected twoComplexTasks twoProjects ''p2'' OtherValue"
  let ?quota = "laterCreationsRejected twoComplexTasks twoProjects (ErrorInstance ''quota'')"
  let ?t = "hd analysedTwo"
  let ?s2 = "suggestions (hd analysedTwo) ! 1"

  have zz: "truthy (taskId ?zz)" "the (taskId ?zz) = ''zz''"
    by (simp_all add: truthy_def)
  have plain: "\<not> truthy (taskId allTasksArgs)" "\<not> truthy (projectId_arg allTasksArgs)"
    "autoCreateSubtasks allTasksArgs"
    by (simp_all add: truthy_def allTasksArgs_def)
  have p1: "\<not> truthy (taskId ?p1)" "truthy (projectId_arg ?p1)" "the (projectId_arg ?p1) = ''p1''"
    by (simp_all add: truthy_def allTasksArgs_def)
  have start: "store emptyWorld = []" "calls emptyWorld = []"
    by (simp_all add: emptyWorld_def)
  have worlds:
    "emptyWorld \<lparr> store := [], calls := [GetTask ''zz''] \<rparr> = emptyWorld \<lparr> calls := [GetTask ''zz''] \<rparr>"
    "emptyWorld \<lparr> store := [], calls := [GetTasks ''p1''] \<rparr> = emptyWorld \<lparr> calls := [GetTasks ''p1''] \<rparr>"
    "emptyWorld \<lparr> store := [], calls := [GetProjects] \<rparr> = emptyWorld \<lparr> calls := [GetProjects] \<rparr>"
    by (simp_all add: emptyWorld_def)

  have absent: "getTask ?ok (the (taskId ?zz)) (store emptyWorld) = (Inr None, [])"
    by code_simp
  have one: \<open>handler ?ok asciiRuntime ?zz emptyWorld
       = (\<lparr> content_text = ''Error: Task with ID "zz" not found.'', isError = Some True \<rparr>,
          emptyWorld \<lparr> calls := [GetTask ''zz''] \<rparr>)\<close>
    using C9_failures_become_responses [where a = ?zz and st = ?ok and w = emptyWorld
        and s' = "[]" and rt = asciiRuntime] zz(1) absent
    by (simp add: start worlds)

  have lookup: "getTask ?disk (the (taskId ?zz)) (store emptyWorld)
      = (Inl (ErrorInstance ''disk full''), [])"
    by (simp add: rejectingStorage_def start)
  have two: "handler ?disk asciiRuntime ?zz emptyWorld
       = (\<lparr> content_text = ''Error analyzing task complexity: disk full'', isError = Some True \<rparr>,
          emptyWorld \<lparr> calls := [GetTask ''zz''] \<rparr>)"
    using C9_failures_become_responses [where a = ?zz and st = ?disk and w = emptyWorld
        and s' = "[]" and rt = asciiRuntime and e = "ErrorInstance ''disk full''"] zz(1) lookup
    by (simp add: start worlds)

  have project: "getTasks ?other (the (projectId_arg ?p1)) (store emptyWorld) = (Inl OtherValue, [])"
    by (simp add: rejectingStorage_def start)
  have three: "handler ?other asciiRuntime ?p1 emptyWorld
       = (\<lparr> content_text = ''Error analyzing task complexity: Unknown error'',
            isError = Some True \<rparr>,
          emptyWorld \<lparr> calls := [GetTasks ''p1''] \<rparr>)"
    using C9_failures_become_responses [where a = ?p1 and st = ?other and w = emptyWorld
        and s' = "[]" and rt = asciiRuntime and e = OtherValue] p1(1,2) project
    by (simp add: start worlds p1(3))

  have projects: "getProjects ?disk (store emptyWorld) = (Inl (ErrorInstance ''disk full''), [])"
    by (simp add: rejectingStorage_def start)
  have four: "handler ?disk asciiRuntime allTasksArgs emptyWorld
       = (\<lparr> content_text = ''Error analyzing task complexity: disk full'', isError = Some True \<rparr>,
          emptyWorld \<lparr> calls := [GetProjects] \<rparr>)"
    using C9_failures_become_responses [where a = allTasksArgs and st = ?disk and w = emptyWorld
        and s' = "[]" and rt = asciiRuntime and e = "ErrorInstance ''disk full''"]
      plain(1,2) projects
    by (simp add: start worlds)

  let ?w1 = "emptyWorld \<lparr> calls := [GetProjects, GetTasks ''p1''] \<rparr>"
  have listed: "getProjects ?half (store emptyWorld)
      = (Inr ([hd twoProjects] @ (twoProjects ! 1) # []), [])"
    by (simp add: projectRejected_def twoProjects_def start)
  have firstProject: "collectProjectTasks ?half [hd twoProjects] []
        (emptyWorld \<lparr> store := [], calls := calls emptyWorld @ [GetProjects] \<rparr>)
      = (Inr [hd twoComplexTasks], ?w1)"
    by code_simp
  have secondProject: "getTasks ?half (id_project (twoProjects ! 1)) (store ?w1) = (Inl OtherValue, [])"
    by (simp add: projectRejected_def twoProjects_def start)
  have afterSecond: "?w1 \<lparr> store := [], calls := calls ?w1 @ [GetTasks (id_project (twoProjects ! 1))] \<rparr>
      = selectedWorld"
    by (simp add: selectedWorld_def emptyWorld_def twoProjects_def)
  have five: "handler ?half asciiRuntime allTasksArgs emptyWorld
       = (\<lparr> content_text = ''Error analyzing task complexity: Unknown error'',
            isError = Some True \<rparr>,
          selectedWorld)"
    using C9_failures_become_responses [where a = allTasksArgs and st = ?half and w = emptyWorld
        and s' = "[]" and rt = asciiRuntime and e = OtherValue and pre = "[hd twoProjects]"
        and p = "twoProjects ! 1" and post = "[]" and ?s1.0 = "[]"
        and found = "[hd twoComplexTasks]" and ?w1.0 = ?w1]
      plain(1,2) listed firstProject secondProject
    unfolding afterSecond by simp

  have sel: "selectTasks ?quota allTasksArgs emptyWorld = (Inr (Inr twoComplexTasks), selectedWorld)"
    by code_simp
  have ne: "twoComplexTasks \<noteq> []" by (simp add: twoComplexTasks_def)
  have two_entries: "length analysedTwo = 2" by code_simp
  then have "analysedTwo \<noteq> []" by auto
  then have "analysedTwo = [] @ ?t # tl analysedTwo" by (rule split_at_first)
  then have entries: "complexTasks (analyzeTaskComplexity asciiRuntime twoComplexTasks
        (complexityThreshold allTasksArgs) (suggestBreakdown allTasksArgs))
      = [] @ ?t # tl analysedTwo"
    by (simp add: analysedTwo_def [symmetric])
  have none_before: "autoCreateSubtasksFromSuggestions ?quota asciiRuntime [] selectedWorld
      = (Inr (), selectedWorld)"
    by simp
  have "length (suggestions ?t) = 3" by code_simp
  then have "1 < length (suggestions ?t)" by simp
  then have suggested: "suggestions ?t = [hd (suggestions ?t)] @ ?s2 # drop 2 (suggestions ?t)"
    by (rule split_at_second)
  have firstOne: "createForTask ?quota asciiRuntime ?t [hd (suggestions ?t)] selectedWorld
      = (Inr (), oneCreatedWorld)"
    by code_simp
  have reads: "clockReads oneCreatedWorld = 2" "store oneCreatedWorld = [firstCreated]"
    by (simp_all add: oneCreatedWorld_def)
  have rejected: "createSubtask ?quota (subtaskFor asciiRuntime 2 ?t ?s2) [firstCreated]
      = (Inl (ErrorInstance ''quota''), [firstCreated])"
    by (simp add: laterCreationsRejected_def)
  have rejected': "createSubtask ?quota (subtaskFor asciiRuntime (clockReads oneCreatedWorld) ?t ?s2)
        (store oneCreatedWorld) = (Inl (ErrorInstance ''quota''), [firstCreated])"
    unfolding reads by (rule rejected)
  have afterRejection:
    "oneCreatedWorld \<lparr> clockReads := clockReads oneCreatedWorld + 2, store := [firstCreated],
        calls := calls oneCreatedWorld
          @ [CreateSubtask (subtaskFor asciiRuntime (clockReads oneCreatedWorld) ?t ?s2)] \<rparr>
      = oneCreatedWorld \<lparr> clockReads := 4,
          calls := calls oneCreatedWorld @ [CreateSubtask (subtaskFor asciiRuntime 2 ?t ?s2)] \<rparr>"
    by (simp add: oneCreatedWorld_def)
  note hyps = conjI [OF sel conjI [OF ne conjI [OF plain(3) conjI [OF entries
      conjI [OF none_before conjI [OF suggested conjI [OF firstOne rejected']]]]]]]
  note parts = C9_failures_become_responses [where a = allTasksArgs and st = ?quota
        and w = emptyWorld and s' = "[firstCreated]" and rt = asciiRuntime
        and e = "ErrorInstance ''quota''" and tasks = twoComplexTasks
        and ?w1.0 = selectedWorld and before = "[]" and t = ?t
        and after = "tl analysedTwo" and ?w2.0 = selectedWorld
        and earlier = "[hd (suggestions ?t)]" and s = ?s2 and later = "drop 2 (suggestions ?t)"
        and ?w3.0 = oneCreatedWorld]
  note sixth = parts [THEN conjunct2, THEN conjunct2, THEN conjunct2, THEN conjunct2,
      THEN conjunct2, THEN mp, OF hyps]
  have six: "handler ?quota asciiRuntime allTasksArgs emptyWorld
       = (\<lparr> content_text = ''Error analyzing task complexity: quota'', isError = Some True \<rparr>,
          oneCreatedWorld \<lparr> clockReads := 4,
            calls := calls oneCreatedWorld @ [CreateSubtask (subtaskFor asciiRuntime 2 ?t ?s2)] \<rparr>)"
    using sixth unfolding afterRejection by simp
  show ?thesis using one two three four five sel firstOne rejected six by (intro conjI)
qed

end
